theory Spec2Isabelle
  imports Complex_Main
begin

section \<open>The vLLM completion handler (litellm/llms/vllm/completion/handler.py)\<close>

text \<open>
  The handler is glue between litellm and the vLLM engine. Its own state is the module
  global \<open>llm\<close>; everything else it touches is an object handed in by the caller (the
  options dictionary, the response object, the logging object) or a collaborator that
  lives outside the file (the \<open>vllm\<close> package, the prompt factory, the clock).

  The embedding keeps the collaborators as parameters (record \<open>env\<close>), threads the
  global and the object stores through every function (record \<open>state\<close>) and turns every
  \<open>raise\<close> into the \<open>Inl\<close> branch of a sum. A function of the handler has the type
  \<open>state \<Rightarrow> (exn + 'a) \<times> state\<close>: the state is returned on the error branch too, since
  what was assigned before an exception stays assigned.
\<close>

subsection \<open>Python values, dictionaries and exceptions\<close>

datatype pyval =
    PNone
  | PBool bool
  | PInt int
  | PFloat real
  | PStr string
  | PDict "(string \<times> pyval) list"

text \<open>A dictionary with string keys (the options are passed on as keyword arguments).\<close>

type_synonym pydict = "string \<rightharpoonup> pyval"

text \<open>\<open>k in d\<close>\<close>

definition dict_contains :: "pydict \<Rightarrow> string \<Rightarrow> bool" where
  "dict_contains d k = (d k \<noteq> None)"

text \<open>\<open>{k: v for k, v in d.items() if P k}\<close>\<close>

definition dict_comprehension :: "(string \<Rightarrow> bool) \<Rightarrow> pydict \<Rightarrow> pydict" where
  "dict_comprehension P d = (\<lambda>k. if P k then d k else None)"

text \<open>
  The exceptions the handler can see. \<open>VLLMError\<close> carries \<open>status_code\<close> and \<open>message\<close>;
  its constructor passes the message to \<open>Exception.__init__\<close>, so \<open>str\<close> of it is the
  message. \<open>PyException cls text\<close> is any other subclass of \<open>Exception\<close>, given by its
  class name and the text \<open>str\<close> returns for it.
\<close>

datatype exn =
    VLLMError int string
  | KeyError string
  | IndexError
  | PyException string string

text \<open>\<open>str(e)\<close>\<close>

fun exn_str :: "exn \<Rightarrow> string" where
  "exn_str (VLLMError status_code message) = message"
| "exn_str (KeyError k) = [CHR 0x27] @ k @ [CHR 0x27]"
| "exn_str IndexError = ''list index out of range''"
| "exn_str (PyException cls txt) = txt"

text \<open>\<open>d[k]\<close>\<close>

definition getitem :: "pydict \<Rightarrow> string \<Rightarrow> exn + pyval" where
  "getitem d k = (case d k of None \<Rightarrow> Inl (KeyError k) | Some v \<Rightarrow> Inr v)"

subsection \<open>Engine outputs and the response object\<close>

text \<open>The engine handle and the sampling configuration are opaque to the handler.\<close>

datatype engine = Engine nat

datatype sampling_params = SamplingConfig nat

text \<open>vLLM's \<open>CompletionOutput\<close> and \<open>RequestOutput\<close>, with the fields the handler reads.\<close>

record completion_output =
  text_of :: string
  token_ids :: "int list"

record request_output =
  prompt_token_ids :: "int list"
  outputs :: "completion_output list"

text \<open>litellm's \<open>Usage\<close> and \<open>ModelResponse\<close>, with the fields the handler writes.\<close>

record usage =
  prompt_tokens :: int
  completion_tokens :: int
  total_tokens :: int

record response_message =
  content :: "string option"

record choice =
  message :: response_message

record model_response =
  choices :: "choice list"
  created :: int
  mr_model :: "string option"
  mr_usage :: "usage option"

text \<open>A chat message is a dictionary the handler only passes on.\<close>

type_synonym chat_message = "(string \<times> pyval) list"

text \<open>\<open>llm.generate\<close> takes one prompt (single completion) or a list of prompts (batch).\<close>

datatype prompt_arg = SinglePrompt string | PromptList "string list"

subsection \<open>The list iterator returned on the streaming path\<close>

text \<open>
  \<open>iter(outputs)\<close> on a list: the iterator holds the list and an index, \<open>next\<close> returns
  the element at the index and advances, or raises \<open>StopIteration\<close> (here \<open>None\<close>) once
  the index has reached the end. It cannot be rewound.
\<close>

record 'a list_iterator =
  it_seq :: "'a list"
  it_index :: nat

definition iter :: "'a list \<Rightarrow> 'a list_iterator" where
  "iter xs = \<lparr>it_seq = xs, it_index = 0\<rparr>"

definition iter_next :: "'a list_iterator \<Rightarrow> 'a option \<times> 'a list_iterator" where
  "iter_next it =
     (if it_index it < length (it_seq it)
      then (Some (it_seq it ! it_index it), it\<lparr>it_index := Suc (it_index it)\<rparr>)
      else (None, it))"

text \<open>\<open>list(it)\<close>: call \<open>next\<close> until \<open>StopIteration\<close>.\<close>

function iter_list :: "'a list_iterator \<Rightarrow> 'a list \<times> 'a list_iterator" where
  "iter_list it =
     (case iter_next it of
        (None, it') \<Rightarrow> ([], it')
      | (Some x, it') \<Rightarrow> (case iter_list it' of (xs, it'') \<Rightarrow> (x # xs, it'')))"
  by pat_completeness auto
termination
  by (relation "measure (\<lambda>it. length (it_seq it) - it_index it)")
     (auto simp: iter_next_def split: if_splits)

declare iter_list.simps [simp del]

subsection \<open>State and collaborators\<close>

datatype log_event =
    PreCall string string sampling_params
  | PostCall string string "request_output list" sampling_params

datatype engine_call =
    EngineInit string pydict
  | Generate engine prompt_arg sampling_params

text \<open>
  \<open>llm\<close> is the module global. \<open>dicts\<close> and \<open>responses\<close> are the stores of dictionary and
  response objects: a Python variable holding such an object is an index into the store,
  all objects below \<open>next_dict\<close> (\<open>next_response\<close>) exist. \<open>clock\<close> counts the calls of
  \<open>time.time()\<close>. The three lists record, in order, the calls of the logging hooks, of
  \<open>print_verbose\<close> and of the engine.
\<close>

record state =
  llm :: "engine option"
  dicts :: "nat \<Rightarrow> pydict"
  next_dict :: nat
  responses :: "nat \<Rightarrow> model_response"
  next_response :: nat
  clock :: nat
  log_events :: "log_event list"
  printed :: "request_output list list"
  engine_calls :: "engine_call list"

type_synonym 'a result = "(exn + 'a) \<times> state"

text \<open>
  The collaborators. \<open>import_vllm\<close> is \<open>from vllm import LLM, SamplingParams\<close>: \<open>None\<close>
  when the import succeeds, the exception otherwise. Each callable returns \<open>Inl\<close> of the
  exception it raises. \<open>ModelResponse\<close> is the value of a freshly constructed response
  object, \<open>time_time n\<close> the reading of the \<open>n\<close>-th call of \<open>int(time.time())\<close>.
\<close>

record env =
  import_vllm :: "exn option"
  LLM :: "string \<Rightarrow> pydict \<Rightarrow> exn + engine"
  SamplingParams :: "pydict \<Rightarrow> exn + sampling_params"
  generate :: "engine \<Rightarrow> prompt_arg \<Rightarrow> sampling_params \<Rightarrow> exn + request_output list"
  custom_prompt :: "pyval \<Rightarrow> pyval \<Rightarrow> pyval \<Rightarrow> chat_message list \<Rightarrow> exn + string"
  prompt_factory :: "string \<Rightarrow> chat_message list \<Rightarrow> exn + string"
  ModelResponse :: model_response
  time_time :: "nat \<Rightarrow> int"

text \<open>The \<open>logging_obj\<close> argument: a hook returns \<open>Some e\<close> when it raises \<open>e\<close>.\<close>

record logging_obj =
  pre_call :: "string \<Rightarrow> string \<Rightarrow> sampling_params \<Rightarrow> exn option"
  post_call :: "string \<Rightarrow> string \<Rightarrow> request_output list \<Rightarrow> sampling_params \<Rightarrow> exn option"

text \<open>Creating a dictionary or a response object takes the next free index of its store.\<close>

definition new_dict :: "pydict \<Rightarrow> state \<Rightarrow> nat \<times> state" where
  "new_dict d st =
     (next_dict st, st\<lparr>dicts := (dicts st)(next_dict st := d), next_dict := Suc (next_dict st)\<rparr>)"

definition new_response :: "model_response \<Rightarrow> state \<Rightarrow> nat \<times> state" where
  "new_response r st =
     (next_response st,
      st\<lparr>responses := (responses st)(next_response st := r),
         next_response := Suc (next_response st)\<rparr>)"

subsection \<open>validate_environment\<close>

definition default_params :: pydict where
  "default_params =
     [''tokenizer'' \<mapsto> PNone,
      ''tokenizer_mode'' \<mapsto> PStr ''auto'',
      ''skip_tokenizer_init'' \<mapsto> PBool False,
      ''trust_remote_code'' \<mapsto> PBool False,
      ''dtype'' \<mapsto> PStr ''auto'',
      ''quantization'' \<mapsto> PNone,
      ''gpu_memory_utilization'' \<mapsto> PFloat 0.9,
      ''load_format'' \<mapsto> PStr ''auto'']"

text \<open>Lines 46 and 47: \<open>None\<close> stands for the empty dictionary.\<close>

definition caller_opts :: "nat option \<Rightarrow> state \<Rightarrow> pydict" where
  "caller_opts optional_params st =
     (case optional_params of None \<Rightarrow> Map.empty | Some d \<Rightarrow> dicts st d)"

text \<open>Line 49: \<open>{**default_params, **{k: v for k, v in opts.items() if k in default_params}}\<close>\<close>

definition construction_params :: "pydict \<Rightarrow> pydict" where
  "construction_params opts =
     default_params ++ dict_comprehension (\<lambda>k. dict_contains default_params k) opts"

text \<open>Line 50: \<open>{k: v for k, v in opts.items() if k not in default_params}\<close>\<close>

definition generation_params :: "pydict \<Rightarrow> pydict" where
  "generation_params opts = dict_comprehension (\<lambda>k. \<not> dict_contains default_params k) opts"

text \<open>
  The body of the \<open>try\<close>. \<open>default_params\<close>, the \<open>{}\<close> that replaces \<open>None\<close> and \<open>params\<close>
  never leave the function (the engine constructor receives the entries of \<open>params\<close> as
  keyword arguments), so they are values; the dictionary bound to \<open>optional_params\<close> at
  the end is returned, so it is a new object of the store. The caller's dictionary is
  only read.
\<close>

definition validate_environment_try ::
  "env \<Rightarrow> string \<Rightarrow> nat option \<Rightarrow> state \<Rightarrow> (engine option \<times> nat) result" where
  "validate_environment_try env model optional_params st =
     (case import_vllm env of
        Some e \<Rightarrow> (Inl e, st)
      | None \<Rightarrow>
          let opts = caller_opts optional_params st;
              params = construction_params opts;
              (optional_params', st1) = new_dict (generation_params opts) st
          in (case llm st1 of
                Some e \<Rightarrow> (Inr (llm st1, optional_params'), st1)
              | None \<Rightarrow>
                  let st2 = st1\<lparr>engine_calls :=
                                  engine_calls st1 @ [EngineInit model params]\<rparr>
                  in (case LLM env model params of
                        Inl e \<Rightarrow> (Inl e, st2)
                      | Inr eng \<Rightarrow>
                          let st3 = st2\<lparr>llm := Some eng\<rparr>
                          in (Inr (llm st3, optional_params'), st3))))"

text \<open>\<open>except Exception as e: raise VLLMError(status_code=0, message=str(e))\<close>\<close>

definition validate_environment ::
  "env \<Rightarrow> string \<Rightarrow> nat option \<Rightarrow> state \<Rightarrow> (engine option \<times> nat) result" where
  "validate_environment env model optional_params st =
     (case validate_environment_try env model optional_params st of
        (Inl e, st') \<Rightarrow> (Inl (VLLMError 0 (exn_str e)), st')
      | (Inr r, st') \<Rightarrow> (Inr r, st'))"

subsection \<open>Prompt rendering\<close>

text \<open>The \<open>custom_prompt(...)\<close> call with the three entries of the model's template.\<close>

definition custom_prompt_call :: "env \<Rightarrow> pydict \<Rightarrow> chat_message list \<Rightarrow> exn + string" where
  "custom_prompt_call env model_prompt_details messages =
     (case getitem model_prompt_details ''roles'' of
        Inl e \<Rightarrow> Inl e
      | Inr role_dict \<Rightarrow>
          (case getitem model_prompt_details ''initial_prompt_value'' of
             Inl e \<Rightarrow> Inl e
           | Inr initial_prompt_value \<Rightarrow>
               (case getitem model_prompt_details ''final_prompt_value'' of
                  Inl e \<Rightarrow> Inl e
                | Inr final_prompt_value \<Rightarrow>
                    custom_prompt env role_dict initial_prompt_value final_prompt_value
                      messages)))"

text \<open>Lines 77 to 87 of \<open>completion\<close>.\<close>

definition render_prompt ::
  "env \<Rightarrow> string \<Rightarrow> chat_message list \<Rightarrow> (string \<rightharpoonup> pydict) \<Rightarrow> exn + string" where
  "render_prompt env model messages custom_prompt_dict =
     (case custom_prompt_dict model of
        Some model_prompt_details \<Rightarrow> custom_prompt_call env model_prompt_details messages
      | None \<Rightarrow> prompt_factory env model messages)"

text \<open>
  A \<open>for\<close> loop that appends one rendered prompt per element to \<open>prompts\<close> and is left by
  the first exception.
\<close>

fun append_prompts ::
  "('a \<Rightarrow> exn + string) \<Rightarrow> 'a list \<Rightarrow> string list \<Rightarrow> exn + string list" where
  "append_prompts f [] prompts = Inr prompts"
| "append_prompts f (msg # rest) prompts =
     (case f msg of
        Inl e \<Rightarrow> Inl e
      | Inr prompt \<Rightarrow> append_prompts f rest (prompts @ [prompt]))"

text \<open>Lines 167 to 182 of \<open>batch_completions\<close>.\<close>

definition render_prompts ::
  "env \<Rightarrow> string \<Rightarrow> chat_message list list \<Rightarrow> (string \<rightharpoonup> pydict) \<Rightarrow> exn + string list" where
  "render_prompts env model messages custom_prompt_dict =
     (case custom_prompt_dict model of
        Some model_prompt_details \<Rightarrow>
          append_prompts (custom_prompt_call env model_prompt_details) messages []
      | None \<Rightarrow> append_prompts (prompt_factory env model) messages [])"

subsection \<open>Calling the engine and filling the response\<close>

text \<open>
  \<open>if llm: outputs = llm.generate(...) else: raise VLLMError(...)\<close>. An engine object
  is truthy (the class defines neither \<open>__bool__\<close> nor \<open>__len__\<close>), so the test separates
  \<open>None\<close> from an engine.
\<close>

definition engine_generate ::
  "env \<Rightarrow> engine option \<Rightarrow> prompt_arg \<Rightarrow> sampling_params \<Rightarrow> state \<Rightarrow>
   request_output list result" where
  "engine_generate env llm' prompt sampling st =
     (case llm' of
        Some e \<Rightarrow>
          (generate env e prompt sampling,
           st\<lparr>engine_calls := engine_calls st @ [Generate e prompt sampling]\<rparr>)
      | None \<Rightarrow>
          (Inl (VLLMError 0 ''Need to pass in a model name to initialize vllm''), st))"

text \<open>
  Lines 116 to 129 of \<open>completion\<close> (with \<open>output = outputs[0]\<close>) and lines 195 to 208 of
  \<open>batch_completions\<close>, which are the same statements: the text of the first candidate
  goes to the first choice, then \<open>created\<close>, \<open>model\<close> and \<open>usage\<close> are set. The first
  statement raises \<open>IndexError\<close> when the output has no candidate or the response has no
  choice, before anything is written.
\<close>

definition populate_response ::
  "env \<Rightarrow> string \<Rightarrow> request_output \<Rightarrow> nat \<Rightarrow> state \<Rightarrow> unit result" where
  "populate_response env model output model_response st =
     (case outputs output of
        [] \<Rightarrow> (Inl IndexError, st)
      | candidate # _ \<Rightarrow>
          (case choices (responses st model_response) of
             [] \<Rightarrow> (Inl IndexError, st)
           | ch # chs \<Rightarrow>
               let r1 = (responses st model_response)
                          \<lparr>choices :=
                             ch\<lparr>message := (message ch)\<lparr>content := Some (text_of candidate)\<rparr>\<rparr>
                             # chs\<rparr>;
                   n_prompt = int (length (prompt_token_ids output));
                   n_completion = int (length (token_ids candidate));
                   r2 = r1\<lparr>created := time_time env (clock st), mr_model := Some model\<rparr>;
                   u = \<lparr>prompt_tokens = n_prompt,
                        completion_tokens = n_completion,
                        total_tokens = n_prompt + n_completion\<rparr>;
                   r3 = r2\<lparr>mr_usage := Some u\<rparr>
               in (Inr (),
                   st\<lparr>responses := (responses st)(model_response := r3),
                      clock := Suc (clock st)\<rparr>)))"

subsection \<open>completion\<close>

text \<open>\<open>"stream" in optional_params and optional_params["stream"] is True\<close>\<close>

definition stream_requested :: "pydict \<Rightarrow> bool" where
  "stream_requested d = (dict_contains d ''stream'' \<and> d ''stream'' = Some (PBool True))"

datatype completion_return =
    RetStream "request_output list_iterator"
  | RetResponse nat

text \<open>
  The arguments \<open>encoding\<close>, \<open>litellm_params\<close> and \<open>logger_fn\<close> are never used and are left
  out. \<open>print_verbose\<close> returns \<open>Some e\<close> when it raises \<open>e\<close>.
\<close>

definition completion ::
  "env \<Rightarrow> string \<Rightarrow> chat_message list \<Rightarrow> nat \<Rightarrow> (request_output list \<Rightarrow> exn option) \<Rightarrow>
   logging_obj \<Rightarrow> nat \<Rightarrow> (string \<rightharpoonup> pydict) \<Rightarrow> state \<Rightarrow> completion_return result" where
  "completion env model messages model_response print_verbose logging optional_params
     custom_prompt_dict st =
     (case validate_environment env model (Some optional_params) st of
        (Inl e, st0) \<Rightarrow> (Inl (VLLMError 0 (exn_str e)), st0)
      | (Inr (llm', optional_params'), st0) \<Rightarrow>
          let st1 = st0\<lparr>llm := llm'\<rparr>
          in (case SamplingParams env (dicts st1 optional_params') of
                Inl e \<Rightarrow> (Inl e, st1)
              | Inr sampling \<Rightarrow>
                  (case render_prompt env model messages custom_prompt_dict of
                     Inl e \<Rightarrow> (Inl e, st1)
                   | Inr prompt \<Rightarrow>
                       let st2 = st1\<lparr>log_events :=
                                       log_events st1 @ [PreCall prompt [] sampling]\<rparr>
                       in (case pre_call logging prompt [] sampling of
                             Some e \<Rightarrow> (Inl e, st2)
                           | None \<Rightarrow>
                               (case engine_generate env llm' (SinglePrompt prompt) sampling st2 of
                                  (Inl e, st3) \<Rightarrow> (Inl e, st3)
                                | (Inr outs, st3) \<Rightarrow>
                                    if stream_requested (dicts st3 optional_params')
                                    then (Inr (RetStream (iter outs)), st3)
                                    else
                                      let st4 = st3\<lparr>log_events :=
                                                      log_events st3
                                                      @ [PostCall prompt [] outs sampling]\<rparr>
                                      in (case post_call logging prompt [] outs sampling of
                                            Some e \<Rightarrow> (Inl e, st4)
                                          | None \<Rightarrow>
                                              let st5 = st4\<lparr>printed := printed st4 @ [outs]\<rparr>
                                              in (case print_verbose outs of
                                                    Some e \<Rightarrow> (Inl e, st5)
                                                  | None \<Rightarrow>
                                                      (case outs of
                                                         [] \<Rightarrow> (Inl IndexError, st5)
                                                       | output # _ \<Rightarrow>
                                                           (case populate_response env model output
                                                                   model_response st5 of
                                                              (Inl e, st6) \<Rightarrow> (Inl e, st6)
                                                            | (Inr _, st6) \<Rightarrow>
                                                                (Inr (RetResponse model_response),
                                                                 st6))))))))))"

subsection \<open>batch_completions\<close>

text \<open>
  The loop over the engine's outputs: each round constructs a response object, fills it
  and appends it to \<open>final_outputs\<close>.
\<close>

fun collect_outputs ::
  "env \<Rightarrow> string \<Rightarrow> request_output list \<Rightarrow> nat list \<Rightarrow> state \<Rightarrow> nat list result" where
  "collect_outputs env model [] final_outputs st = (Inr final_outputs, st)"
| "collect_outputs env model (output # rest) final_outputs st =
     (case new_response (ModelResponse env) st of
        (model_response, st1) \<Rightarrow>
          (case populate_response env model output model_response st1 of
             (Inl e, st2) \<Rightarrow> (Inl e, st2)
           | (Inr _, st2) \<Rightarrow>
               collect_outputs env model rest (final_outputs @ [model_response]) st2))"

text \<open>
  Here \<open>llm\<close> is a local variable (the function has no \<open>global\<close> statement), and
  \<open>optional_params\<close> may be \<open>None\<close>.
\<close>

definition batch_completions ::
  "env \<Rightarrow> string \<Rightarrow> chat_message list list \<Rightarrow> nat option \<Rightarrow> (string \<rightharpoonup> pydict) \<Rightarrow> state \<Rightarrow>
   nat list result" where
  "batch_completions env model messages optional_params custom_prompt_dict st =
     (case validate_environment env model optional_params st of
        (Inl e, st1) \<Rightarrow> (Inl (VLLMError 0 (exn_str e)), st1)
      | (Inr (llm', optional_params'), st1) \<Rightarrow>
          (case SamplingParams env (dicts st1 optional_params') of
             Inl e \<Rightarrow> (Inl e, st1)
           | Inr sampling \<Rightarrow>
               (case render_prompts env model messages custom_prompt_dict of
                  Inl e \<Rightarrow> (Inl e, st1)
                | Inr prompts \<Rightarrow>
                    (case engine_generate env llm' (PromptList prompts) sampling st1 of
                       (Inl e, st2) \<Rightarrow> (Inl e, st2)
                     | (Inr outs, st2) \<Rightarrow> collect_outputs env model outs [] st2))))"

text \<open>The keys of \<open>default_params\<close>.\<close>

abbreviation construction_keys :: "string set" where
  "construction_keys \<equiv>
     {''tokenizer'', ''tokenizer_mode'', ''skip_tokenizer_init'', ''trust_remote_code'',
      ''dtype'', ''quantization'', ''gpu_memory_utilization'', ''load_format''}"

subsection \<open>A concrete environment\<close>

text \<open>
  An engine that answers each prompt with one candidate whose text is the prompt, a
  prompt factory that renders the number of messages, hooks that never raise, and a
  state with no engine and three dictionaries of the caller.
\<close>

definition echo_output :: "string \<Rightarrow> request_output" where
  "echo_output p =
     \<lparr>prompt_token_ids = map (\<lambda>c. 1) p, outputs = [\<lparr>text_of = p, token_ids = [7, 8]\<rparr>]\<rparr>"

definition empty_response :: model_response where
  "empty_response =
     \<lparr>choices = [\<lparr>message = \<lparr>content = None\<rparr>\<rparr>], created = 0, mr_model = None,
      mr_usage = None\<rparr>"

definition echo_env :: env where
  "echo_env =
     \<lparr>import_vllm = None,
      LLM = (\<lambda>model params. Inr (Engine 1)),
      SamplingParams = (\<lambda>d. Inr (SamplingConfig 0)),
      generate = (\<lambda>e p sampling.
         case p of SinglePrompt q \<Rightarrow> Inr [echo_output q]
                 | PromptList qs \<Rightarrow> Inr (map echo_output qs)),
      custom_prompt = (\<lambda>role_dict initial final messages. Inr ''custom''),
      prompt_factory = (\<lambda>model messages. Inr (replicate (length messages) CHR ''m'')),
      ModelResponse = empty_response,
      time_time = (\<lambda>n. 1700000000 + int n)\<rparr>"

definition quiet_logging :: logging_obj where
  "quiet_logging = \<lparr>pre_call = (\<lambda>p k s. None), post_call = (\<lambda>p k r s. None)\<rparr>"

definition quiet_print :: "request_output list \<Rightarrow> exn option" where
  "quiet_print outs = None"

definition start_state :: state where
  "start_state =
     \<lparr>llm = None,
      dicts = (\<lambda>r. Map.empty)
        (0 := [''dtype'' \<mapsto> PStr ''float16'', ''temperature'' \<mapsto> PInt 1],
         1 := [''stream'' \<mapsto> PBool True],
         2 := [''stream'' \<mapsto> PInt 1]),
      next_dict = 3,
      responses = (\<lambda>r. empty_response),
      next_response = 1,
      clock = 0,
      log_events = [],
      printed = [],
      engine_calls = []\<rparr>"

text \<open>The start state once an engine exists.\<close>

definition running_state :: state where
  "running_state = start_state\<lparr>llm := Some (Engine 7)\<rparr>"

text \<open>The environment without the engine library, and one whose engine constructor raises.\<close>

definition no_vllm_env :: env where
  "no_vllm_env =
     echo_env\<lparr>import_vllm := Some (PyException ''ModuleNotFoundError'' ''No module named vllm'')\<rparr>"

definition broken_engine_env :: env where
  "broken_engine_env =
     echo_env\<lparr>LLM := (\<lambda>model params. Inl (PyException ''ValueError'' ''bad dtype''))\<rparr>"

text \<open>One chat message.\<close>

definition user_message :: chat_message where
  "user_message = [(''role'', PStr ''user''), (''content'', PStr ''good morning? '')]"

section \<open>Properties of validate_environment\<close>

lemma dict_contains_default_params:
  "dict_contains default_params k \<longleftrightarrow> k \<in> construction_keys"
  by (simp add: dict_contains_def default_params_def)

lemma validate_environment_import_fails:
  "import_vllm env = Some e \<Longrightarrow>
   validate_environment env model optional_params st = (Inl (VLLMError 0 (exn_str e)), st)"
  by (simp add: validate_environment_def validate_environment_try_def Let_def)

lemma validate_environment_existing:
  "import_vllm env = None \<Longrightarrow> llm st = Some e \<Longrightarrow>
   validate_environment env model optional_params st =
     (Inr (Some e, next_dict st),
      st\<lparr>dicts := (dicts st)(next_dict st := generation_params (caller_opts optional_params st)),
         next_dict := Suc (next_dict st)\<rparr>)"
  by (simp add: validate_environment_def validate_environment_try_def new_dict_def Let_def)

lemma validate_environment_construct_fails:
  "import_vllm env = None \<Longrightarrow> llm st = None \<Longrightarrow>
   LLM env model (construction_params (caller_opts optional_params st)) = Inl e \<Longrightarrow>
   validate_environment env model optional_params st =
     (Inl (VLLMError 0 (exn_str e)),
      st\<lparr>dicts := (dicts st)(next_dict st := generation_params (caller_opts optional_params st)),
         next_dict := Suc (next_dict st),
         engine_calls := engine_calls st
            @ [EngineInit model (construction_params (caller_opts optional_params st))]\<rparr>)"
  by (simp add: validate_environment_def validate_environment_try_def new_dict_def Let_def)

lemma validate_environment_constructs:
  "import_vllm env = None \<Longrightarrow> llm st = None \<Longrightarrow>
   LLM env model (construction_params (caller_opts optional_params st)) = Inr eng \<Longrightarrow>
   validate_environment env model optional_params st =
     (Inr (Some eng, next_dict st),
      st\<lparr>dicts := (dicts st)(next_dict st := generation_params (caller_opts optional_params st)),
         next_dict := Suc (next_dict st),
         engine_calls := engine_calls st
            @ [EngineInit model (construction_params (caller_opts optional_params st))],
         llm := Some eng\<rparr>)"
  by (simp add: validate_environment_def validate_environment_try_def new_dict_def Let_def)

lemma construction_params_apply:
  "construction_params opts k =
     (if k \<in> construction_keys
      then (case opts k of None \<Rightarrow> default_params k | Some v \<Rightarrow> Some v)
      else None)"
  unfolding construction_params_def map_add_def dict_comprehension_def
    dict_contains_default_params
  by (simp add: default_params_def split: option.splits)

lemma generation_params_apply:
  "generation_params opts k = (if k \<in> construction_keys then None else opts k)"
  unfolding generation_params_def dict_comprehension_def dict_contains_default_params
  by simp

text \<open>Every outcome of validate_environment, by cases on the import, the global and the constructor.\<close>

lemma validate_environment_cases:
  obtains (import_fails) e where "import_vllm env = Some e"
      "validate_environment env model optional_params st = (Inl (VLLMError 0 (exn_str e)), st)"
  | (existing) e where "import_vllm env = None" "llm st = Some e"
      "validate_environment env model optional_params st =
         (Inr (Some e, next_dict st),
          st\<lparr>dicts := (dicts st)(next_dict st := generation_params (caller_opts optional_params st)),
             next_dict := Suc (next_dict st)\<rparr>)"
  | (construct_fails) e where "import_vllm env = None" "llm st = None"
      "LLM env model (construction_params (caller_opts optional_params st)) = Inl e"
      "validate_environment env model optional_params st =
         (Inl (VLLMError 0 (exn_str e)),
          st\<lparr>dicts := (dicts st)(next_dict st := generation_params (caller_opts optional_params st)),
             next_dict := Suc (next_dict st),
             engine_calls := engine_calls st
               @ [EngineInit model (construction_params (caller_opts optional_params st))]\<rparr>)"
  | (constructs) eng where "import_vllm env = None" "llm st = None"
      "LLM env model (construction_params (caller_opts optional_params st)) = Inr eng"
      "validate_environment env model optional_params st =
         (Inr (Some eng, next_dict st),
          st\<lparr>dicts := (dicts st)(next_dict st := generation_params (caller_opts optional_params st)),
             next_dict := Suc (next_dict st),
             engine_calls := engine_calls st
               @ [EngineInit model (construction_params (caller_opts optional_params st))],
             llm := Some eng\<rparr>)"
proof (cases "import_vllm env")
  case (Some e)
  then show ?thesis using import_fails validate_environment_import_fails by blast
next
  case None
  show ?thesis
  proof (cases "llm st")
    case (Some e)
    then show ?thesis using None existing validate_environment_existing by blast
  next
    case no_engine: None
    show ?thesis
    proof (cases "LLM env model (construction_params (caller_opts optional_params st))")
      case (Inl e)
      then show ?thesis
        using None no_engine construct_fails validate_environment_construct_fails by blast
    next
      case (Inr eng)
      then show ?thesis
        using None no_engine constructs validate_environment_constructs by blast
    qed
  qed
qed

text \<open>
  Claim C1. With the import succeeding, the options of the caller are split in two. The
  engine constructor (called when no engine exists yet) receives exactly the eight keys
  of the whitelist, each with the caller's value when the caller gave one and with the
  default otherwise, and no other key. The dictionary handed back for generation holds
  every other key of the caller with the caller's value, and none of the eight.
\<close>

theorem validate_environment_partition:
  assumes "import_vllm env = None"
      and "opts = caller_opts optional_params st"
      and "call = validate_environment env model optional_params st"
  shows "(llm st = None \<longrightarrow>
            engine_calls (snd call) = engine_calls st @
              [EngineInit model
                 (\<lambda>k. if k \<in> construction_keys
                      then (case opts k of None \<Rightarrow> default_params k | Some v \<Rightarrow> Some v)
                      else None)])
       \<and> (\<forall>k \<in> construction_keys. default_params k \<noteq> None)
       \<and> (\<forall>llm' g. fst call = Inr (llm', g) \<longrightarrow>
            dicts (snd call) g = (\<lambda>k. if k \<in> construction_keys then None else opts k))"
proof -
  have params: "construction_params opts =
      (\<lambda>k. if k \<in> construction_keys
           then (case opts k of None \<Rightarrow> default_params k | Some v \<Rightarrow> Some v)
           else None)"
    by (rule ext) (rule construction_params_apply)
  have gen: "generation_params opts = (\<lambda>k. if k \<in> construction_keys then None else opts k)"
    by (rule ext) (rule generation_params_apply)
  have defaults: "\<forall>k \<in> construction_keys. default_params k \<noteq> None"
    by (simp add: default_params_def)
  show ?thesis
  proof (cases rule: validate_environment_cases [of env model optional_params st])
    case (import_fails e)
    with assms show ?thesis by simp
  next
    case (existing e)
    with assms defaults gen show ?thesis by simp
  next
    case (construct_fails e)
    with assms defaults params show ?thesis by simp
  next
    case (constructs eng)
    with assms defaults params gen show ?thesis by simp
  qed
qed

theorem validate_environment_partition_witness:
  "fst (validate_environment echo_env ''opt-125m'' (Some 0) start_state) = Inr (Some (Engine 1), 3)
   \<and> dicts (snd (validate_environment echo_env ''opt-125m'' (Some 0) start_state)) 3
       = [''temperature'' \<mapsto> PInt 1]
   \<and> engine_calls (snd (validate_environment echo_env ''opt-125m'' (Some 0) start_state))
       = [EngineInit ''opt-125m'' (default_params(''dtype'' \<mapsto> PStr ''float16''))]"
proof -
  let ?call = "validate_environment echo_env ''opt-125m'' (Some 0) start_state"
  let ?opts = "[''dtype'' \<mapsto> PStr ''float16'', ''temperature'' \<mapsto> PInt 1]"
  have imp: "import_vllm echo_env = None" by (simp add: echo_env_def)
  have opts: "?opts = caller_opts (Some 0) start_state"
    by (simp add: caller_opts_def start_state_def)
  have no_engine: "llm start_state = None" by (simp add: start_state_def)
  have ret: "fst ?call = Inr (Some (Engine 1), 3)"
    using validate_environment_constructs [of echo_env start_state "''opt-125m''" "Some 0" "Engine 1"]
    by (simp add: echo_env_def start_state_def)
  note part = validate_environment_partition [OF imp opts refl, of "''opt-125m''"]
  have gen: "dicts (snd ?call) 3 = [''temperature'' \<mapsto> PInt 1]"
    using part ret by (auto simp: fun_eq_iff)
  have "engine_calls (snd ?call) = [EngineInit ''opt-125m'' (default_params(''dtype'' \<mapsto> PStr ''float16''))]"
    using part no_engine by (auto simp: fun_eq_iff start_state_def default_params_def)
  with ret gen show ?thesis by simp
qed

lemma validate_environment_returns:
  assumes "fst (validate_environment env model optional_params st) = Inr (llm', g)"
  shows "\<exists>e. llm' = Some e \<and> llm (snd (validate_environment env model optional_params st)) = Some e
           \<and> g = next_dict st \<and> (llm st = None \<or> llm st = Some e)"
proof (cases rule: validate_environment_cases [of env model optional_params st])
  case (import_fails e)
  with assms show ?thesis by simp
next
  case (existing e)
  with assms have "llm' = Some e" and "g = next_dict st" by simp_all
  with existing show ?thesis by simp
next
  case (construct_fails e)
  with assms show ?thesis by simp
next
  case (constructs eng)
  with assms have "llm' = Some eng" and "g = next_dict st" by simp_all
  with constructs show ?thesis by simp
qed

lemma validate_environment_keeps_engine:
  assumes "llm st = Some e"
  shows "llm (snd (validate_environment env model optional_params st)) = Some e
       \<and> engine_calls (snd (validate_environment env model optional_params st)) = engine_calls st"
  using assms
  by (cases rule: validate_environment_cases [of env model optional_params st]) auto

lemma validate_environment_dicts_frame:
  "d < next_dict st \<Longrightarrow>
   dicts (snd (validate_environment env model optional_params st)) d = dicts st d"
  by (cases rule: validate_environment_cases [of env model optional_params st]) auto

lemma populate_response_llm:
  "llm (snd (populate_response env model output r st)) = llm st"
  by (simp add: populate_response_def Let_def split: list.splits)

lemma engine_generate_llm:
  "llm (snd (engine_generate env h p sp st)) = llm st"
  by (simp add: engine_generate_def split: option.splits)

lemma collect_outputs_llm:
  "llm (snd (collect_outputs env model outs acc st)) = llm st"
proof (induction outs arbitrary: acc st)
  case Nil
  show ?case by simp
next
  case (Cons out rest)
  have "llm (snd (populate_response env model out (next_response st)
          (snd (new_response (ModelResponse env) st)))) = llm st"
    by (simp add: populate_response_llm new_response_def)
  then show ?case
    using Cons.IH
    by (auto simp: new_response_def split: prod.splits sum.splits)
qed

lemma completion_keeps_engine:
  assumes "llm st = Some e"
  shows "llm (snd (completion env model messages r pv lg d cpd st)) = Some e"
proof (cases rule: validate_environment_cases [of env model "Some d" st])
  case (import_fails e')
  then show ?thesis using assms by (simp add: completion_def)
next
  case (existing e')
  with assms have [simp]: "e' = e" by simp
  show ?thesis
    using existing assms
    by (simp add: completion_def Let_def engine_generate_def populate_response_def
        split: sum.splits option.splits list.splits prod.splits)
next
  case (construct_fails e')
  then show ?thesis using assms by simp
next
  case (constructs eng)
  then show ?thesis using assms by simp
qed

lemma batch_completions_keeps_engine:
  assumes "llm st = Some e"
  shows "llm (snd (batch_completions env model msgs optional_params cpd st)) = Some e"
proof (cases rule: validate_environment_cases [of env model optional_params st])
  case (import_fails e')
  then show ?thesis using assms by (simp add: batch_completions_def)
next
  case (existing e')
  show ?thesis
    using existing assms
    by (simp add: batch_completions_def Let_def engine_generate_def collect_outputs_llm
        split: sum.splits option.splits list.splits prod.splits)
next
  case (construct_fails e')
  then show ?thesis using assms by simp
next
  case (constructs eng)
  then show ?thesis using assms by simp
qed

text \<open>
  Claim C2. Once the global holds an engine, a call of validate_environment returns that
  engine whatever the model argument is, leaves the global as it is and does not call
  the engine constructor; two calls in a row with two models return the same engine.
  The global still holds it after completion and after batch_completions.
\<close>

theorem engine_singleton_first_caller_wins:
  assumes "llm st = Some e" and "import_vllm env = None"
  shows "(\<exists>g1 st1 g2 st2.
            validate_environment env model1 opts1 st = (Inr (Some e, g1), st1)
          \<and> validate_environment env model2 opts2 st1 = (Inr (Some e, g2), st2)
          \<and> llm st1 = Some e \<and> llm st2 = Some e
          \<and> engine_calls st1 = engine_calls st \<and> engine_calls st2 = engine_calls st)
       \<and> llm (snd (completion env model2 messages r pv lg d cpd st)) = Some e
       \<and> llm (snd (batch_completions env model2 msgs opts2 cpd st)) = Some e"
proof -
  let ?st1 = "st\<lparr>dicts := (dicts st)(next_dict st := generation_params (caller_opts opts1 st)),
                 next_dict := Suc (next_dict st)\<rparr>"
  have first: "validate_environment env model1 opts1 st = (Inr (Some e, next_dict st), ?st1)"
    by (rule validate_environment_existing [OF assms(2) assms(1)])
  have engine1: "llm ?st1 = Some e" using assms(1) by simp
  obtain st2 where second:
    "validate_environment env model2 opts2 ?st1 = (Inr (Some e, next_dict ?st1), st2)"
    and st2: "llm st2 = Some e" "engine_calls st2 = engine_calls ?st1"
    using validate_environment_existing [OF assms(2) engine1, of model2 opts2] engine1
    by simp
  have calls1: "engine_calls ?st1 = engine_calls st" by simp
  from st2 calls1 have calls2: "engine_calls st2 = engine_calls st" by simp
  have "\<exists>g1 st1 g2 st2.
            validate_environment env model1 opts1 st = (Inr (Some e, g1), st1)
          \<and> validate_environment env model2 opts2 st1 = (Inr (Some e, g2), st2)
          \<and> llm st1 = Some e \<and> llm st2 = Some e
          \<and> engine_calls st1 = engine_calls st \<and> engine_calls st2 = engine_calls st"
    by (intro exI conjI, rule first, rule second, rule engine1, rule st2(1), rule calls1,
        rule calls2)
  then show ?thesis
    using completion_keeps_engine [OF assms(1)] batch_completions_keeps_engine [OF assms(1)]
    by simp
qed

theorem engine_singleton_first_caller_wins_witness:
  "fst (validate_environment echo_env ''model-b'' None
         (snd (validate_environment echo_env ''model-a'' (Some 0) running_state)))
     = Inr (Some (Engine 7), 4)
   \<and> fst (validate_environment echo_env ''model-a'' (Some 0) running_state)
     = Inr (Some (Engine 7), 3)
   \<and> engine_calls (snd (validate_environment echo_env ''model-b'' None
         (snd (validate_environment echo_env ''model-a'' (Some 0) running_state)))) = []"
proof -
  have engine: "llm running_state = Some (Engine 7)"
    by (simp add: running_state_def)
  have imp: "import_vllm echo_env = None"
    by (simp add: echo_env_def)
  from engine_singleton_first_caller_wins [OF engine imp, of "''model-a''" "Some 0" "''model-b''" None]
  obtain g1 st1 g2 st2 where
    a: "validate_environment echo_env ''model-a'' (Some 0) running_state = (Inr (Some (Engine 7), g1), st1)"
    and b: "validate_environment echo_env ''model-b'' None st1 = (Inr (Some (Engine 7), g2), st2)"
    and c: "engine_calls st2 = engine_calls running_state"
    by blast
  have g1: "g1 = 3"
    using validate_environment_returns [of echo_env "''model-a''" "Some 0" running_state "Some (Engine 7)" g1] a
    by (simp add: running_state_def start_state_def)
  have "next_dict st1 = 4"
    using a validate_environment_existing [OF imp engine, of "''model-a''" "Some 0"]
    by (auto simp: running_state_def start_state_def)
  then have g2: "g2 = 4"
    using validate_environment_returns [of echo_env "''model-b''" None st1 "Some (Engine 7)" g2] b
    by simp
  have "engine_calls running_state = []"
    by (simp add: running_state_def start_state_def)
  with a b c g1 g2 show ?thesis by simp
qed

lemma construction_params_empty: "construction_params Map.empty = default_params"
  by (rule ext) (simp add: construction_params_apply default_params_def)

lemma generation_params_empty: "generation_params Map.empty = Map.empty"
  by (rule ext) (simp add: generation_params_apply)

text \<open>
  Claim C10. \<open>None\<close> for the options is accepted and stands for the empty dictionary: the
  engine constructor receives the defaults alone, the call returns whenever the
  constructor does (or an engine exists), and the dictionary returned for generation is
  empty. For any options, every dictionary that existed before the call, the caller's
  among them, has its contents unchanged after it, and the dictionary returned is a new
  object.
\<close>

theorem validate_environment_none_and_fresh:
  shows "(import_vllm env = None \<longrightarrow> llm st = None \<longrightarrow>
            engine_calls (snd (validate_environment env model None st))
              = engine_calls st @ [EngineInit model default_params])
       \<and> (import_vllm env = None \<longrightarrow> llm st = None \<longrightarrow>
            (\<forall>eng. LLM env model default_params = Inr eng \<longrightarrow>
               fst (validate_environment env model None st) = Inr (Some eng, next_dict st)))
       \<and> (import_vllm env = None \<longrightarrow> llm st \<noteq> None \<longrightarrow>
            fst (validate_environment env model None st) = Inr (llm st, next_dict st))
       \<and> (\<forall>llm' g. fst (validate_environment env model None st) = Inr (llm', g) \<longrightarrow>
            dicts (snd (validate_environment env model None st)) g = Map.empty)
       \<and> (\<forall>d < next_dict st.
            dicts (snd (validate_environment env model optional_params st)) d = dicts st d)
       \<and> (\<forall>llm' g. fst (validate_environment env model optional_params st) = Inr (llm', g) \<longrightarrow>
            g = next_dict st \<and> next_dict st < next_dict (snd (validate_environment env model optional_params st)))"
proof -
  have none: "caller_opts None st = Map.empty"
    by (simp add: caller_opts_def)
  have a: "import_vllm env = None \<longrightarrow> llm st = None \<longrightarrow>
            engine_calls (snd (validate_environment env model None st))
              = engine_calls st @ [EngineInit model default_params]"
    by (cases rule: validate_environment_cases [of env model None st])
       (simp_all add: none construction_params_empty)
  have b: "import_vllm env = None \<longrightarrow> llm st = None \<longrightarrow>
            (\<forall>eng. LLM env model default_params = Inr eng \<longrightarrow>
               fst (validate_environment env model None st) = Inr (Some eng, next_dict st))"
    by (cases rule: validate_environment_cases [of env model None st])
       (simp_all add: none construction_params_empty)
  have c: "import_vllm env = None \<longrightarrow> llm st \<noteq> None \<longrightarrow>
            fst (validate_environment env model None st) = Inr (llm st, next_dict st)"
    by (cases rule: validate_environment_cases [of env model None st]) simp_all
  have d: "\<forall>llm' g. fst (validate_environment env model None st) = Inr (llm', g) \<longrightarrow>
            dicts (snd (validate_environment env model None st)) g = Map.empty"
    by (cases rule: validate_environment_cases [of env model None st])
       (auto simp: none generation_params_empty)
  have e: "\<forall>d < next_dict st.
            dicts (snd (validate_environment env model optional_params st)) d = dicts st d"
    by (simp add: validate_environment_dicts_frame)
  have f: "\<forall>llm' g. fst (validate_environment env model optional_params st) = Inr (llm', g) \<longrightarrow>
            g = next_dict st \<and> next_dict st < next_dict (snd (validate_environment env model optional_params st))"
    by (cases rule: validate_environment_cases [of env model optional_params st]) auto
  from a b c d e f show ?thesis by blast
qed

theorem validate_environment_none_and_fresh_witness:
  "fst (validate_environment echo_env ''opt-125m'' None start_state) = Inr (Some (Engine 1), 3)
   \<and> engine_calls (snd (validate_environment echo_env ''opt-125m'' None start_state))
       = [EngineInit ''opt-125m'' default_params]
   \<and> dicts (snd (validate_environment echo_env ''opt-125m'' None start_state)) 3 = Map.empty
   \<and> dicts (snd (validate_environment echo_env ''opt-125m'' (Some 0) start_state)) 0
       = [''dtype'' \<mapsto> PStr ''float16'', ''temperature'' \<mapsto> PInt 1]"
proof -
  note inst = validate_environment_none_and_fresh [of echo_env start_state "''opt-125m''" "Some 0"]
  have imp: "import_vllm echo_env = None" by (simp add: echo_env_def)
  have no_engine: "llm start_state = None" by (simp add: start_state_def)
  have ctor: "LLM echo_env ''opt-125m'' default_params = Inr (Engine 1)"
    by (simp add: echo_env_def)
  have nd: "next_dict start_state = 3" by (simp add: start_state_def)
  have ret: "fst (validate_environment echo_env ''opt-125m'' None start_state) = Inr (Some (Engine 1), 3)"
    using inst imp no_engine ctor nd by simp
  have calls: "engine_calls (snd (validate_environment echo_env ''opt-125m'' None start_state))
       = [EngineInit ''opt-125m'' default_params]"
    using inst imp no_engine by (simp add: start_state_def)
  have gen: "dicts (snd (validate_environment echo_env ''opt-125m'' None start_state)) 3 = Map.empty"
    using inst ret by blast
  have "(0::nat) < next_dict start_state" using nd by simp
  with inst have "dicts (snd (validate_environment echo_env ''opt-125m'' (Some 0) start_state)) 0
       = dicts start_state 0" by blast
  then have same: "dicts (snd (validate_environment echo_env ''opt-125m'' (Some 0) start_state)) 0
       = [''dtype'' \<mapsto> PStr ''float16'', ''temperature'' \<mapsto> PInt 1]"
    by (simp add: start_state_def)
  from ret calls gen same show ?thesis by simp
qed

lemma completion_validate_error:
  "fst (validate_environment env model (Some d) st) = Inl e \<Longrightarrow>
   fst (completion env model messages r pv lg d cpd st) = Inl (VLLMError 0 (exn_str e))"
  by (cases "validate_environment env model (Some d) st")
     (auto simp: completion_def split: sum.splits)

lemma batch_completions_validate_error:
  "fst (validate_environment env model optional_params st) = Inl e \<Longrightarrow>
   fst (batch_completions env model msgs optional_params cpd st) = Inl (VLLMError 0 (exn_str e))"
  by (cases "validate_environment env model optional_params st")
     (auto simp: batch_completions_def split: sum.splits)

text \<open>
  Claim C4. An exception \<open>e\<close> raised by the import of the engine library, or by the engine
  constructor when no engine exists yet, leaves validate_environment as the adapter's
  error with status code 0 and message \<open>str(e)\<close>; completion and batch_completions,
  which catch and wrap it once more, raise the adapter's error with the same status
  code and the same message.
\<close>

theorem engine_errors_rewrapped:
  assumes "import_vllm env = Some e
         \<or> (import_vllm env = None \<and> llm st = None
            \<and> LLM env model (construction_params (caller_opts optional_params st)) = Inl e)"
  shows "fst (validate_environment env model optional_params st) = Inl (VLLMError 0 (exn_str e))
       \<and> fst (batch_completions env model msgs optional_params cpd st)
           = Inl (VLLMError 0 (exn_str e))
       \<and> (\<forall>d. optional_params = Some d \<longrightarrow>
            fst (completion env model messages r pv lg d cpd st) = Inl (VLLMError 0 (exn_str e)))"
proof -
  have v: "fst (validate_environment env model optional_params st) = Inl (VLLMError 0 (exn_str e))"
    using assms validate_environment_import_fails [of env e model optional_params st]
      validate_environment_construct_fails [of env st model optional_params e]
    by auto
  have b: "fst (batch_completions env model msgs optional_params cpd st)
           = Inl (VLLMError 0 (exn_str e))"
    using batch_completions_validate_error [OF v] by simp
  have c: "\<forall>d. optional_params = Some d \<longrightarrow>
            fst (completion env model messages r pv lg d cpd st) = Inl (VLLMError 0 (exn_str e))"
    using completion_validate_error v by fastforce
  from v b c show ?thesis by simp
qed

theorem engine_errors_rewrapped_witness:
  "fst (validate_environment no_vllm_env ''opt-125m'' (Some 0) start_state)
     = Inl (VLLMError 0 ''No module named vllm'')
   \<and> fst (completion no_vllm_env ''opt-125m'' [] 0 quiet_print quiet_logging 0 Map.empty start_state)
     = Inl (VLLMError 0 ''No module named vllm'')
   \<and> fst (batch_completions no_vllm_env ''opt-125m'' [[]] (Some 0) Map.empty start_state)
     = Inl (VLLMError 0 ''No module named vllm'')
   \<and> fst (validate_environment broken_engine_env ''opt-125m'' (Some 0) start_state)
     = Inl (VLLMError 0 ''bad dtype'')
   \<and> fst (completion broken_engine_env ''opt-125m'' [] 0 quiet_print quiet_logging 0 Map.empty start_state)
     = Inl (VLLMError 0 ''bad dtype'')
   \<and> fst (batch_completions broken_engine_env ''opt-125m'' [[]] (Some 0) Map.empty start_state)
     = Inl (VLLMError 0 ''bad dtype'')"
proof -
  have h1: "import_vllm no_vllm_env = Some (PyException ''ModuleNotFoundError'' ''No module named vllm'')
         \<or> (import_vllm no_vllm_env = None \<and> llm start_state = None
            \<and> LLM no_vllm_env ''opt-125m'' (construction_params (caller_opts (Some 0) start_state))
                = Inl (PyException ''ModuleNotFoundError'' ''No module named vllm''))"
    by (simp add: no_vllm_env_def)
  have h2: "import_vllm broken_engine_env = Some (PyException ''ValueError'' ''bad dtype'')
         \<or> (import_vllm broken_engine_env = None \<and> llm start_state = None
            \<and> LLM broken_engine_env ''opt-125m'' (construction_params (caller_opts (Some 0) start_state))
                = Inl (PyException ''ValueError'' ''bad dtype''))"
    by (simp add: broken_engine_env_def echo_env_def start_state_def)
  show ?thesis
    using engine_errors_rewrapped [OF h1, of "[[]]" Map.empty "[]" 0 quiet_print quiet_logging]
      engine_errors_rewrapped [OF h2, of "[[]]" Map.empty "[]" 0 quiet_print quiet_logging]
    by simp
qed

section \<open>The outcomes of completion\<close>

lemma validate_environment_frame:
  "responses (snd (validate_environment env model optional_params st)) = responses st
   \<and> next_response (snd (validate_environment env model optional_params st)) = next_response st
   \<and> log_events (snd (validate_environment env model optional_params st)) = log_events st
   \<and> printed (snd (validate_environment env model optional_params st)) = printed st
   \<and> clock (snd (validate_environment env model optional_params st)) = clock st"
  by (cases rule: validate_environment_cases [of env model optional_params st]) simp_all

lemma validate_environment_generation_dict:
  "fst (validate_environment env model optional_params st) = Inr (h, g) \<Longrightarrow>
   dicts (snd (validate_environment env model optional_params st)) g
     = generation_params (caller_opts optional_params st)"
  by (cases rule: validate_environment_cases [of env model optional_params st]) auto

lemma stream_requested_generation_params:
  "stream_requested (generation_params opts) \<longleftrightarrow> opts ''stream'' = Some (PBool True)"
  by (auto simp: stream_requested_def dict_contains_def generation_params_apply)

text \<open>
  When completion returns, every step before the branch on \<open>stream\<close> has succeeded, and
  the final state is the state left by validate_environment with the recorded calls
  added (and, on the non-streaming path, the response written).
\<close>

lemma completion_returns_cases:
  assumes "completion env model messages r pv lg d cpd st = (Inr ret, st')"
  obtains (stream) e sp prompt outs st0 where
      "validate_environment env model (Some d) st = (Inr (Some e, next_dict st), st0)"
      "llm st0 = Some e"
      "SamplingParams env (generation_params (dicts st d)) = Inr sp"
      "render_prompt env model messages cpd = Inr prompt"
      "pre_call lg prompt [] sp = None"
      "generate env e (SinglePrompt prompt) sp = Inr outs"
      "dicts st d ''stream'' = Some (PBool True)"
      "ret = RetStream (iter outs)"
      "st' = st0\<lparr>log_events := log_events st0 @ [PreCall prompt [] sp],
                 engine_calls := engine_calls st0 @ [Generate e (SinglePrompt prompt) sp]\<rparr>"
  | (response) e sp prompt out rest candidate cs ch chs st0 where
      "validate_environment env model (Some d) st = (Inr (Some e, next_dict st), st0)"
      "llm st0 = Some e"
      "SamplingParams env (generation_params (dicts st d)) = Inr sp"
      "render_prompt env model messages cpd = Inr prompt"
      "pre_call lg prompt [] sp = None"
      "generate env e (SinglePrompt prompt) sp = Inr (out # rest)"
      "dicts st d ''stream'' \<noteq> Some (PBool True)"
      "post_call lg prompt [] (out # rest) sp = None"
      "pv (out # rest) = None"
      "outputs out = candidate # cs"
      "choices (responses st r) = ch # chs"
      "ret = RetResponse r"
      "st' = st0\<lparr>log_events := log_events st0
                   @ [PreCall prompt [] sp, PostCall prompt [] (out # rest) sp],
                 engine_calls := engine_calls st0 @ [Generate e (SinglePrompt prompt) sp],
                 printed := printed st0 @ [out # rest],
                 responses := (responses st0)(r :=
                    (responses st0 r)
                      \<lparr>choices := ch\<lparr>message := (message ch)\<lparr>content := Some (text_of candidate)\<rparr>\<rparr> # chs,
                       created := time_time env (clock st0),
                       mr_model := Some model,
                       mr_usage := Some \<lparr>prompt_tokens = int (length (prompt_token_ids out)),
                                         completion_tokens = int (length (token_ids candidate)),
                                         total_tokens = int (length (prompt_token_ids out))
                                                         + int (length (token_ids candidate))\<rparr>\<rparr>),
                 clock := Suc (clock st0)\<rparr>"
proof -
  obtain res st0 where v: "validate_environment env model (Some d) st = (res, st0)"
    by (cases "validate_environment env model (Some d) st") auto
  from assms v obtain h g where res: "res = Inr (h, g)"
    by (cases res) (auto simp: completion_def)
  from v res have "fst (validate_environment env model (Some d) st) = Inr (h, g)" by simp
  from validate_environment_returns [OF this] validate_environment_generation_dict [OF this] v
  obtain e where h: "h = Some e" and engine: "llm st0 = Some e" and g: "g = next_dict st"
    and gen: "dicts st0 g = generation_params (dicts st d)"
    by (auto simp: caller_opts_def)
  from validate_environment_frame [of env model "Some d" st] v
  have frame: "responses st0 = responses st" by simp
  have st1: "st0\<lparr>llm := Some e\<rparr> = st0" using engine by simp
  note unfolded = assms [unfolded completion_def v res h, simplified, unfolded st1 Let_def]
  from unfolded gen obtain sp where sp: "SamplingParams env (generation_params (dicts st d)) = Inr sp"
    by (cases "SamplingParams env (generation_params (dicts st d))") auto
  from unfolded gen sp obtain prompt where pr: "render_prompt env model messages cpd = Inr prompt"
    by (cases "render_prompt env model messages cpd") auto
  from unfolded gen sp pr have pre: "pre_call lg prompt [] sp = None"
    by (cases "pre_call lg prompt [] sp") auto
  from unfolded gen sp pr pre obtain outs where outs: "generate env e (SinglePrompt prompt) sp = Inr outs"
    by (cases "generate env e (SinglePrompt prompt) sp") (auto simp: engine_generate_def)
  show ?thesis
  proof (cases "dicts st d ''stream'' = Some (PBool True)")
    case True
    then have "stream_requested (generation_params (dicts st d))"
      by (simp add: stream_requested_generation_params)
    with unfolded gen sp pr pre outs
    have "ret = RetStream (iter outs)"
      and "st' = st0\<lparr>log_events := log_events st0 @ [PreCall prompt [] sp],
                 engine_calls := engine_calls st0 @ [Generate e (SinglePrompt prompt) sp]\<rparr>"
      by (auto simp: engine_generate_def)
    with stream v res h g engine sp pr pre outs True show ?thesis by simp
  next
    case False
    then have ns: "\<not> stream_requested (generation_params (dicts st d))"
      by (simp add: stream_requested_generation_params)
    from unfolded gen sp pr pre outs ns have post: "post_call lg prompt [] outs sp = None"
      by (cases "post_call lg prompt [] outs sp") (auto simp: engine_generate_def)
    from unfolded gen sp pr pre outs ns post have pv: "pv outs = None"
      by (cases "pv outs") (auto simp: engine_generate_def)
    from unfolded gen sp pr pre outs ns post pv obtain out rest where o: "outs = out # rest"
      by (cases outs) (auto simp: engine_generate_def)
    from unfolded gen sp pr pre outs ns post pv o obtain candidate cs where
      c: "outputs out = candidate # cs"
      by (cases "outputs out") (auto simp: engine_generate_def populate_response_def)
    from unfolded gen sp pr pre outs ns post pv o c obtain ch chs where
      ch: "choices (responses st0 r) = ch # chs"
      by (cases "choices (responses st0 r)") (auto simp: engine_generate_def populate_response_def)
    from unfolded gen sp pr pre outs ns post pv o c ch
    have "ret = RetResponse r"
      and "st' = st0\<lparr>log_events := log_events st0
                   @ [PreCall prompt [] sp, PostCall prompt [] (out # rest) sp],
                 engine_calls := engine_calls st0 @ [Generate e (SinglePrompt prompt) sp],
                 printed := printed st0 @ [out # rest],
                 responses := (responses st0)(r :=
                    (responses st0 r)
                      \<lparr>choices := ch\<lparr>message := (message ch)\<lparr>content := Some (text_of candidate)\<rparr>\<rparr> # chs,
                       created := time_time env (clock st0),
                       mr_model := Some model,
                       mr_usage := Some \<lparr>prompt_tokens = int (length (prompt_token_ids out)),
                                         completion_tokens = int (length (token_ids candidate)),
                                         total_tokens = int (length (prompt_token_ids out))
                                                         + int (length (token_ids candidate))\<rparr>\<rparr>),
                 clock := Suc (clock st0)\<rparr>"
      by (auto simp: engine_generate_def populate_response_def Let_def)
    with response [of e st0 sp prompt out rest candidate cs ch chs]
      v res h g engine sp pr pre outs False post pv o c ch frame
    show ?thesis by simp
  qed
qed

section \<open>The outcomes of batch_completions\<close>



lemma populate_response_returns:
  assumes "populate_response env model out r st = (Inr u, st')"
  obtains candidate cs ch chs where
    "outputs out = candidate # cs"
    "choices (responses st r) = ch # chs"
    "st' = st\<lparr>responses := (responses st)(r :=
              (responses st r)
                \<lparr>choices := ch\<lparr>message := (message ch)\<lparr>content := Some (text_of candidate)\<rparr>\<rparr> # chs,
                 created := time_time env (clock st),
                 mr_model := Some model,
                 mr_usage := Some \<lparr>prompt_tokens = int (length (prompt_token_ids out)),
                                   completion_tokens = int (length (token_ids candidate)),
                                   total_tokens = int (length (prompt_token_ids out))
                                                   + int (length (token_ids candidate))\<rparr>\<rparr>),
            clock := Suc (clock st)\<rparr>"
  using assms
  by (auto simp: populate_response_def Let_def split: list.splits)

text \<open>
  What a filled response holds of the output it was filled from: the text of the first
  candidate in the first choice, the model, and the three token counts.
\<close>

lemma collect_outputs_returns:
  assumes "collect_outputs env model outs acc st = (Inr rs, st')"
  shows "rs = acc @ map (\<lambda>i. next_response st + i) [0..<length outs]
       \<and> next_response st' = next_response st + length outs
       \<and> log_events st' = log_events st \<and> engine_calls st' = engine_calls st
       \<and> (\<forall>r < next_response st. responses st' r = responses st r)
       \<and> (\<forall>i < length outs. \<exists>c cs ch chs.
             outputs (outs ! i) = c # cs
           \<and> choices (responses st' (next_response st + i)) = ch # chs
           \<and> content (message ch) = Some (text_of c)
           \<and> mr_model (responses st' (next_response st + i)) = Some model
           \<and> mr_usage (responses st' (next_response st + i))
               = Some \<lparr>prompt_tokens = int (length (prompt_token_ids (outs ! i))),
                       completion_tokens = int (length (token_ids c)),
                       total_tokens = int (length (prompt_token_ids (outs ! i)))
                                       + int (length (token_ids c))\<rparr>)"
  using assms
proof (induction outs arbitrary: acc st)
  case Nil
  then show ?case by simp
next
  case (Cons out rest)
  let ?r = "next_response st"
  let ?st1 = "st\<lparr>responses := (responses st)(?r := ModelResponse env),
                 next_response := Suc ?r\<rparr>"
  obtain res st2 where p: "populate_response env model out ?r ?st1 = (res, st2)"
    by (cases "populate_response env model out ?r ?st1") auto
  from Cons.prems p obtain u where res: "res = Inr u"
    by (cases res) (auto simp: new_response_def)
  from Cons.prems p res
  have rec: "collect_outputs env model rest (acc @ [?r]) st2 = (Inr rs, st')"
    by (simp add: new_response_def)
  from p res obtain c cs ch chs where
    c: "outputs out = c # cs" and ch: "choices (ModelResponse env) = ch # chs"
    and st2: "st2 = ?st1\<lparr>responses := (responses ?st1)(?r :=
              (responses ?st1 ?r)
                \<lparr>choices := ch\<lparr>message := (message ch)\<lparr>content := Some (text_of c)\<rparr>\<rparr> # chs,
                 created := time_time env (clock ?st1),
                 mr_model := Some model,
                 mr_usage := Some \<lparr>prompt_tokens = int (length (prompt_token_ids out)),
                                   completion_tokens = int (length (token_ids c)),
                                   total_tokens = int (length (prompt_token_ids out))
                                                   + int (length (token_ids c))\<rparr>\<rparr>),
            clock := Suc (clock ?st1)\<rparr>"
    by (auto elim!: populate_response_returns)
  have next2: "next_response st2 = Suc ?r" using st2 by simp
  note IH = Cons.IH [OF rec, unfolded next2]
  have rs: "rs = acc @ map (\<lambda>i. ?r + i) [0..<length (out # rest)]"
  proof -
    have "map (\<lambda>i. ?r + i) [0..<length (out # rest)]
            = ?r # map (\<lambda>i. Suc ?r + i) [0..<length rest]"
      by (simp add: upt_conv_Cons map_Suc_upt [symmetric] del: upt_Suc)
    with IH show ?thesis by simp
  qed
  have nxt: "next_response st' = ?r + length (out # rest)" using IH by simp
  have logs: "log_events st' = log_events st \<and> engine_calls st' = engine_calls st"
    using IH st2 by simp
  have old: "\<forall>r < ?r. responses st' r = responses st r"
    using IH st2 by simp
  have first: "responses st' ?r = responses st2 ?r" using IH by simp
  have each: "\<exists>c cs ch chs.
             outputs ((out # rest) ! i) = c # cs
           \<and> choices (responses st' (?r + i)) = ch # chs
           \<and> content (message ch) = Some (text_of c)
           \<and> mr_model (responses st' (?r + i)) = Some model
           \<and> mr_usage (responses st' (?r + i))
               = Some \<lparr>prompt_tokens = int (length (prompt_token_ids ((out # rest) ! i))),
                       completion_tokens = int (length (token_ids c)),
                       total_tokens = int (length (prompt_token_ids ((out # rest) ! i)))
                                       + int (length (token_ids c))\<rparr>"
    if "i < length (out # rest)" for i
  proof (cases i)
    case 0
    with first st2 c show ?thesis by simp
  next
    case (Suc j)
    with that have "j < length rest" by simp
    with IH Suc show ?thesis by simp
  qed
  from rs nxt logs old each show ?case by blast
qed

lemma batch_completions_returns:
  assumes "batch_completions env model msgs optional_params cpd st = (Inr rs, st')"
  obtains e sp prompts outs st0 where
    "validate_environment env model optional_params st = (Inr (Some e, next_dict st), st0)"
    "llm st0 = Some e"
    "SamplingParams env (generation_params (caller_opts optional_params st)) = Inr sp"
    "render_prompts env model msgs cpd = Inr prompts"
    "generate env e (PromptList prompts) sp = Inr outs"
    "collect_outputs env model outs []
       (st0\<lparr>engine_calls := engine_calls st0 @ [Generate e (PromptList prompts) sp]\<rparr>)
       = (Inr rs, st')"
proof -
  obtain res st0 where v: "validate_environment env model optional_params st = (res, st0)"
    by (cases "validate_environment env model optional_params st") auto
  from assms v obtain h g where res: "res = Inr (h, g)"
    by (cases res) (auto simp: batch_completions_def)
  from v res have "fst (validate_environment env model optional_params st) = Inr (h, g)" by simp
  from validate_environment_returns [OF this] validate_environment_generation_dict [OF this] v
  obtain e where h: "h = Some e" and engine: "llm st0 = Some e" and g: "g = next_dict st"
    and gen: "dicts st0 g = generation_params (caller_opts optional_params st)"
    by auto
  note unfolded = assms [unfolded batch_completions_def v res h, simplified]
  from unfolded gen obtain sp where
    sp: "SamplingParams env (generation_params (caller_opts optional_params st)) = Inr sp"
    by (cases "SamplingParams env (generation_params (caller_opts optional_params st))") auto
  from unfolded gen sp obtain prompts where pr: "render_prompts env model msgs cpd = Inr prompts"
    by (cases "render_prompts env model msgs cpd") auto
  from unfolded gen sp pr obtain outs where
    outs: "generate env e (PromptList prompts) sp = Inr outs"
    by (cases "generate env e (PromptList prompts) sp") (auto simp: engine_generate_def)
  from unfolded gen sp pr outs
  have "collect_outputs env model outs []
       (st0\<lparr>engine_calls := engine_calls st0 @ [Generate e (PromptList prompts) sp]\<rparr>)
       = (Inr rs, st')"
    by (simp add: engine_generate_def)
  with that v res h g engine sp pr outs show ?thesis by simp
qed

section \<open>Successful runs\<close>

text \<open>
  The converse of the case analyses: when every collaborator succeeds, completion
  returns, with the iterator on the streaming path and the caller's response object on
  the other.
\<close>

lemma completion_runs_stream:
  assumes "validate_environment env model (Some d) st = (Inr (Some e, g), st0)"
    and "SamplingParams env (generation_params (dicts st d)) = Inr sp"
    and "render_prompt env model messages cpd = Inr prompt"
    and "pre_call lg prompt [] sp = None"
    and "generate env e (SinglePrompt prompt) sp = Inr outs"
    and "dicts st d ''stream'' = Some (PBool True)"
  shows "completion env model messages r pv lg d cpd st =
           (Inr (RetStream (iter outs)),
            st0\<lparr>log_events := log_events st0 @ [PreCall prompt [] sp],
                engine_calls := engine_calls st0 @ [Generate e (SinglePrompt prompt) sp]\<rparr>)"
proof -
  from assms(1) have f: "fst (validate_environment env model (Some d) st) = Inr (Some e, g)"
    and s: "snd (validate_environment env model (Some d) st) = st0" by simp_all
  from validate_environment_returns [OF f] s have engine: "llm st0 = Some e" by simp
  from validate_environment_generation_dict [OF f] s
  have gen: "dicts st0 g = generation_params (dicts st d)" by (simp add: caller_opts_def)
  have st1: "st0\<lparr>llm := Some e\<rparr> = st0" using engine by simp
  show ?thesis
    using assms(2-6)
    by (simp add: completion_def assms(1) st1 gen engine_generate_def
        stream_requested_generation_params)
qed

lemma completion_runs_response:
  assumes "validate_environment env model (Some d) st = (Inr (Some e, g), st0)"
    and "SamplingParams env (generation_params (dicts st d)) = Inr sp"
    and "render_prompt env model messages cpd = Inr prompt"
    and "pre_call lg prompt [] sp = None"
    and "generate env e (SinglePrompt prompt) sp = Inr (out # rest)"
    and "dicts st d ''stream'' \<noteq> Some (PBool True)"
    and "post_call lg prompt [] (out # rest) sp = None"
    and "pv (out # rest) = None"
    and "outputs out = candidate # cs"
    and "choices (responses st r) = ch # chs"
  shows "completion env model messages r pv lg d cpd st =
           (Inr (RetResponse r),
            st0\<lparr>log_events := log_events st0
                   @ [PreCall prompt [] sp, PostCall prompt [] (out # rest) sp],
                 engine_calls := engine_calls st0 @ [Generate e (SinglePrompt prompt) sp],
                 printed := printed st0 @ [out # rest],
                 responses := (responses st0)(r :=
                    (responses st0 r)
                      \<lparr>choices := ch\<lparr>message := (message ch)\<lparr>content := Some (text_of candidate)\<rparr>\<rparr> # chs,
                       created := time_time env (clock st0),
                       mr_model := Some model,
                       mr_usage := Some \<lparr>prompt_tokens = int (length (prompt_token_ids out)),
                                         completion_tokens = int (length (token_ids candidate)),
                                         total_tokens = int (length (prompt_token_ids out))
                                                         + int (length (token_ids candidate))\<rparr>\<rparr>),
                 clock := Suc (clock st0)\<rparr>)"
proof -
  from assms(1) have f: "fst (validate_environment env model (Some d) st) = Inr (Some e, g)"
    and s: "snd (validate_environment env model (Some d) st) = st0" by simp_all
  from validate_environment_returns [OF f] s have engine: "llm st0 = Some e" by simp
  from validate_environment_generation_dict [OF f] s
  have gen: "dicts st0 g = generation_params (dicts st d)" by (simp add: caller_opts_def)
  from validate_environment_frame [of env model "Some d" st] s
  have frame: "responses st0 = responses st" by simp
  have st1: "st0\<lparr>llm := Some e\<rparr> = st0" using engine by simp
  show ?thesis
    using assms(2-10)
    by (simp add: completion_def assms(1) st1 gen engine_generate_def frame
        stream_requested_generation_params populate_response_def Let_def)
qed

lemma echo_validate_run:
  "validate_environment echo_env ''opt-125m'' (Some d) start_state =
     (Inr (Some (Engine 1), 3),
      start_state\<lparr>dicts := (dicts start_state)(3 := generation_params (dicts start_state d)),
         next_dict := 4,
         engine_calls := [EngineInit ''opt-125m'' (construction_params (dicts start_state d))],
         llm := Some (Engine 1)\<rparr>)"
  using validate_environment_constructs [of echo_env start_state "''opt-125m''" "Some d" "Engine 1"]
  by (simp add: echo_env_def start_state_def caller_opts_def)

lemma echo_completion_run:
  "completion echo_env ''opt-125m'' [user_message] 0 quiet_print quiet_logging 0 Map.empty
        start_state =
     (Inr (RetResponse 0),
      start_state
       \<lparr>dicts := (dicts start_state)(3 := generation_params (dicts start_state 0)),
        next_dict := 4,
        engine_calls := [EngineInit ''opt-125m'' (construction_params (dicts start_state 0))],
        llm := Some (Engine 1),
        log_events := [PreCall ''m'' [] (SamplingConfig 0),
                       PostCall ''m'' [] [echo_output ''m''] (SamplingConfig 0)],
        engine_calls := [EngineInit ''opt-125m'' (construction_params (dicts start_state 0)),
                         Generate (Engine 1) (SinglePrompt ''m'') (SamplingConfig 0)],
        printed := [[echo_output ''m'']],
        responses := (responses start_state)(0 :=
           \<lparr>choices = [\<lparr>message = \<lparr>content = Some ''m''\<rparr>\<rparr>],
            created = 1700000000,
            mr_model = Some ''opt-125m'',
            mr_usage = Some \<lparr>prompt_tokens = 1, completion_tokens = 2, total_tokens = 3\<rparr>\<rparr>),
        clock := 1\<rparr>)"
proof -
  have sp: "SamplingParams echo_env (generation_params (dicts start_state 0)) = Inr (SamplingConfig 0)"
    by (simp add: echo_env_def)
  have pr: "render_prompt echo_env ''opt-125m'' [user_message] Map.empty = Inr ''m''"
    by (simp add: render_prompt_def echo_env_def)
  have pre: "pre_call quiet_logging ''m'' [] (SamplingConfig 0) = None"
    by (simp add: quiet_logging_def)
  have gen: "generate echo_env (Engine 1) (SinglePrompt ''m'') (SamplingConfig 0)
               = Inr (echo_output ''m'' # [])"
    by (simp add: echo_env_def)
  have ns: "dicts start_state 0 ''stream'' \<noteq> Some (PBool True)"
    by (simp add: start_state_def)
  have post: "post_call quiet_logging ''m'' [] (echo_output ''m'' # []) (SamplingConfig 0) = None"
    by (simp add: quiet_logging_def)
  have pv: "quiet_print (echo_output ''m'' # []) = None"
    by (simp add: quiet_print_def)
  have c: "outputs (echo_output ''m'') = \<lparr>text_of = ''m'', token_ids = [7, 8]\<rparr> # []"
    by (simp add: echo_output_def)
  have ch: "choices (responses start_state 0) = \<lparr>message = \<lparr>content = None\<rparr>\<rparr> # []"
    by (simp add: start_state_def empty_response_def)
  show ?thesis
    unfolding completion_runs_response [where pv = quiet_print and r = 0 and d = 0,
        OF echo_validate_run sp pr pre gen ns post pv c ch]
    by (simp add: start_state_def empty_response_def echo_output_def echo_env_def)
qed


lemma collect_outputs_runs:
  assumes "\<forall>out \<in> set outs. outputs out \<noteq> []" and "choices (ModelResponse env) \<noteq> []"
  shows "fst (collect_outputs env model outs acc st)
           = Inr (acc @ map (\<lambda>i. next_response st + i) [0..<length outs])"
  using assms(1)
proof (induction outs arbitrary: acc st)
  case Nil
  show ?case by simp
next
  case (Cons out rest)
  from Cons.prems obtain c cs where c: "outputs out = c # cs"
    by (cases "outputs out") auto
  from assms(2) obtain ch chs where ch: "choices (ModelResponse env) = ch # chs"
    by (cases "choices (ModelResponse env)") auto
  have shift: "map (\<lambda>i. next_response st + i) [0..<length (out # rest)]
            = next_response st # map (\<lambda>i. Suc (next_response st) + i) [0..<length rest]"
    by (simp add: upt_conv_Cons map_Suc_upt [symmetric] del: upt_Suc)
  from Cons.prems have "\<forall>out \<in> set rest. outputs out \<noteq> []" by simp
  note IH = Cons.IH [OF this]
  show ?case
    unfolding shift
    by (simp add: new_response_def populate_response_def c ch Let_def IH)
qed

lemma batch_completions_runs:
  assumes "validate_environment env model optional_params st = (Inr (Some e, g), st0)"
    and "SamplingParams env (generation_params (caller_opts optional_params st)) = Inr sp"
    and "render_prompts env model msgs cpd = Inr prompts"
    and "generate env e (PromptList prompts) sp = Inr outs"
    and "\<forall>out \<in> set outs. outputs out \<noteq> []"
    and "choices (ModelResponse env) \<noteq> []"
  shows "fst (batch_completions env model msgs optional_params cpd st)
           = Inr (map (\<lambda>i. next_response st + i) [0..<length outs])"
proof -
  from assms(1) have f: "fst (validate_environment env model optional_params st) = Inr (Some e, g)"
    and s: "snd (validate_environment env model optional_params st) = st0" by simp_all
  from validate_environment_generation_dict [OF f] s
  have gen: "dicts st0 g = generation_params (caller_opts optional_params st)" by simp
  from validate_environment_frame [of env model optional_params st] s
  have frame: "next_response st0 = next_response st" by simp
  show ?thesis
    using collect_outputs_runs [OF assms(5,6), of model "[]"
        "st0\<lparr>engine_calls := engine_calls st0 @ [Generate e (PromptList prompts) sp]\<rparr>"]
    by (simp add: batch_completions_def assms(1-4) gen engine_generate_def frame)
qed

lemma echo_batch_run:
  "fst (batch_completions echo_env ''opt-125m'' [[user_message], [user_message, user_message]]
         (Some 0) Map.empty start_state) = Inr [1, 2]"
proof -
  have sp: "SamplingParams echo_env (generation_params (caller_opts (Some 0) start_state))
              = Inr (SamplingConfig 0)"
    by (simp add: echo_env_def)
  have pr: "render_prompts echo_env ''opt-125m'' [[user_message], [user_message, user_message]]
              Map.empty = Inr [''m'', ''mm'']"
    by (simp add: render_prompts_def echo_env_def)
  have gen: "generate echo_env (Engine 1) (PromptList [''m'', ''mm'']) (SamplingConfig 0)
               = Inr [echo_output ''m'', echo_output ''mm'']"
    by (simp add: echo_env_def)
  have cands: "\<forall>out \<in> set [echo_output ''m'', echo_output ''mm'']. outputs out \<noteq> []"
    by (simp add: echo_output_def)
  have ch: "choices (ModelResponse echo_env) \<noteq> []"
    by (simp add: echo_env_def empty_response_def)
  have "map (\<lambda>i. next_response start_state + i) [0..<length [echo_output ''m'', echo_output ''mm'']]
          = [1, 2]"
    by (simp add: start_state_def upt_conv_Cons)
  with batch_completions_runs [OF echo_validate_run sp pr gen cands ch]
  show ?thesis by simp
qed

lemma populate_response_log_events:
  "log_events (snd (populate_response env model out r st)) = log_events st"
  by (simp add: populate_response_def Let_def split: list.splits)

lemma collect_outputs_log_events:
  "log_events (snd (collect_outputs env model outs acc st)) = log_events st"
proof (induction outs arbitrary: acc st)
  case Nil
  show ?case by simp
next
  case (Cons out rest)
  have "log_events (snd (populate_response env model out (next_response st)
          (snd (new_response (ModelResponse env) st)))) = log_events st"
    by (simp add: populate_response_log_events new_response_def)
  then show ?case
    using Cons.IH
    by (auto simp: new_response_def split: prod.splits sum.splits)
qed

lemma batch_completions_log_events:
  "log_events (snd (batch_completions env model msgs optional_params cpd st)) = log_events st"
proof -
  obtain res st0 where v: "validate_environment env model optional_params st = (res, st0)"
    by (cases "validate_environment env model optional_params st") auto
  from validate_environment_frame [of env model optional_params st] v
  have frame: "log_events st0 = log_events st" by simp
  show ?thesis
    by (simp add: batch_completions_def v frame engine_generate_def collect_outputs_log_events
        split: sum.splits option.splits prod.splits)
qed

section \<open>Usage accounting, batch order and logging\<close>

text \<open>
  Claim C3. When a single completion returns the response object, the engine was asked
  for the rendered prompt and answered with a non-empty list of outputs; the usage of
  the response has the length of the first output's prompt token ids as prompt_tokens,
  the length of its first candidate's token ids as completion_tokens and their sum as
  total_tokens. When a batch returns, every response of the result has the same three
  counts, taken from the output at the same position.
\<close>

theorem usage_accounting:
  shows "(\<forall>r' st'. completion env model messages r pv lg d cpd st = (Inr (RetResponse r'), st') \<longrightarrow>
           (\<exists>e prompt sp out rest c cs u.
               render_prompt env model messages cpd = Inr prompt
             \<and> generate env e (SinglePrompt prompt) sp = Inr (out # rest)
             \<and> outputs out = c # cs
             \<and> mr_usage (responses st' r') = Some u
             \<and> prompt_tokens u = int (length (prompt_token_ids out))
             \<and> completion_tokens u = int (length (token_ids c))
             \<and> total_tokens u = prompt_tokens u + completion_tokens u))
       \<and> (\<forall>rs st'. batch_completions env model msgs optional_params cpd st = (Inr rs, st') \<longrightarrow>
           (\<exists>e prompts sp outs.
               render_prompts env model msgs cpd = Inr prompts
             \<and> generate env e (PromptList prompts) sp = Inr outs
             \<and> length rs = length outs
             \<and> (\<forall>i < length rs. \<exists>c cs u.
                   outputs (outs ! i) = c # cs
                 \<and> mr_usage (responses st' (rs ! i)) = Some u
                 \<and> prompt_tokens u = int (length (prompt_token_ids (outs ! i)))
                 \<and> completion_tokens u = int (length (token_ids c))
                 \<and> total_tokens u = prompt_tokens u + completion_tokens u)))"
proof (intro conjI allI impI)
  fix r' st'
  assume run: "completion env model messages r pv lg d cpd st = (Inr (RetResponse r'), st')"
  then show "\<exists>e prompt sp out rest c cs u.
               render_prompt env model messages cpd = Inr prompt
             \<and> generate env e (SinglePrompt prompt) sp = Inr (out # rest)
             \<and> outputs out = c # cs
             \<and> mr_usage (responses st' r') = Some u
             \<and> prompt_tokens u = int (length (prompt_token_ids out))
             \<and> completion_tokens u = int (length (token_ids c))
             \<and> total_tokens u = prompt_tokens u + completion_tokens u"
  proof (cases rule: completion_returns_cases)
    case (stream e sp prompt outs st0)
    then show ?thesis by simp
  next
    case (response e sp prompt out rest candidate cs ch chs st0)
    let ?u = "\<lparr>prompt_tokens = int (length (prompt_token_ids out)),
               completion_tokens = int (length (token_ids candidate)),
               total_tokens = int (length (prompt_token_ids out))
                               + int (length (token_ids candidate))\<rparr>"
    from response have "mr_usage (responses st' r') = Some ?u" by simp
    with response(4,6,10) show ?thesis by fastforce
  qed
next
  fix rs st'
  assume run: "batch_completions env model msgs optional_params cpd st = (Inr rs, st')"
  from run obtain e sp prompts outs st0 where
    pr: "render_prompts env model msgs cpd = Inr prompts"
    and gen: "generate env e (PromptList prompts) sp = Inr outs"
    and coll: "collect_outputs env model outs []
       (st0\<lparr>engine_calls := engine_calls st0 @ [Generate e (PromptList prompts) sp]\<rparr>)
       = (Inr rs, st')"
    by (rule batch_completions_returns)
  let ?n = "next_response (st0\<lparr>engine_calls := engine_calls st0 @ [Generate e (PromptList prompts) sp]\<rparr>)"
  note co = collect_outputs_returns [OF coll]
  from co have rs: "rs = map (\<lambda>i. ?n + i) [0..<length outs]" by simp
  then have len: "length rs = length outs" by simp
  have each: "\<exists>c cs u.
                   outputs (outs ! i) = c # cs
                 \<and> mr_usage (responses st' (rs ! i)) = Some u
                 \<and> prompt_tokens u = int (length (prompt_token_ids (outs ! i)))
                 \<and> completion_tokens u = int (length (token_ids c))
                 \<and> total_tokens u = prompt_tokens u + completion_tokens u"
    if "i < length rs" for i
  proof -
    from that len have i: "i < length outs" by simp
    with rs have at: "rs ! i = ?n + i" by simp
    from co i obtain c cs where
      "outputs (outs ! i) = c # cs"
      "mr_usage (responses st' (?n + i))
         = Some \<lparr>prompt_tokens = int (length (prompt_token_ids (outs ! i))),
                 completion_tokens = int (length (token_ids c)),
                 total_tokens = int (length (prompt_token_ids (outs ! i)))
                                 + int (length (token_ids c))\<rparr>"
      by blast
    with at show ?thesis by fastforce
  qed
  from pr gen len each
  show "\<exists>e prompts sp outs.
               render_prompts env model msgs cpd = Inr prompts
             \<and> generate env e (PromptList prompts) sp = Inr outs
             \<and> length rs = length outs
             \<and> (\<forall>i < length rs. \<exists>c cs u.
                   outputs (outs ! i) = c # cs
                 \<and> mr_usage (responses st' (rs ! i)) = Some u
                 \<and> prompt_tokens u = int (length (prompt_token_ids (outs ! i)))
                 \<and> completion_tokens u = int (length (token_ids c))
                 \<and> total_tokens u = prompt_tokens u + completion_tokens u)"
    by blast
qed


lemma echo_generate:
  "generate echo_env e (SinglePrompt q) sp = Inr [echo_output q]"
  "generate echo_env e (PromptList qs) sp = Inr (map echo_output qs)"
  by (simp_all add: echo_env_def)

lemma echo_render:
  "render_prompt echo_env ''opt-125m'' [user_message] Map.empty = Inr ''m''"
  "render_prompts echo_env ''opt-125m'' [[user_message], [user_message, user_message]]
     Map.empty = Inr [''m'', ''mm'']"
  by (simp_all add: render_prompt_def render_prompts_def echo_env_def)

theorem usage_accounting_witness:
  "fst (completion echo_env ''opt-125m'' [user_message] 0 quiet_print quiet_logging 0 Map.empty
         start_state) = Inr (RetResponse 0)
   \<and> mr_usage (responses (snd (completion echo_env ''opt-125m'' [user_message] 0 quiet_print
         quiet_logging 0 Map.empty start_state)) 0)
       = Some \<lparr>prompt_tokens = 1, completion_tokens = 2, total_tokens = 3\<rparr>
   \<and> fst (batch_completions echo_env ''opt-125m'' [[user_message], [user_message, user_message]]
         (Some 0) Map.empty start_state) = Inr [1, 2]
   \<and> mr_usage (responses (snd (batch_completions echo_env ''opt-125m''
         [[user_message], [user_message, user_message]] (Some 0) Map.empty start_state)) 2)
       = Some \<lparr>prompt_tokens = 2, completion_tokens = 2, total_tokens = 4\<rparr>"
proof -
  let ?single = "completion echo_env ''opt-125m'' [user_message] 0 quiet_print quiet_logging 0
                   Map.empty start_state"
  let ?batch = "batch_completions echo_env ''opt-125m''
                  [[user_message], [user_message, user_message]] (Some 0) Map.empty start_state"
  note acc = usage_accounting [of echo_env "''opt-125m''" "[user_message]" 0 quiet_print
      quiet_logging 0 Map.empty start_state "[[user_message], [user_message, user_message]]"
      "Some 0"]
  have single: "fst ?single = Inr (RetResponse 0)"
    by (simp add: echo_completion_run)
  then have "?single = (Inr (RetResponse 0), snd ?single)"
    by (metis prod.collapse)
  with acc obtain e prompt sp out rest c cs u where
    "render_prompt echo_env ''opt-125m'' [user_message] Map.empty = Inr prompt"
    "generate echo_env e (SinglePrompt prompt) sp = Inr (out # rest)"
    "outputs out = c # cs"
    "mr_usage (responses (snd ?single) 0) = Some u"
    "prompt_tokens u = int (length (prompt_token_ids out))"
    "completion_tokens u = int (length (token_ids c))"
    "total_tokens u = prompt_tokens u + completion_tokens u"
    by blast
  then have u1: "mr_usage (responses (snd ?single) 0)
                   = Some \<lparr>prompt_tokens = 1, completion_tokens = 2, total_tokens = 3\<rparr>"
    by (cases u) (auto simp: echo_render echo_generate echo_output_def)
  have batch: "fst ?batch = Inr [1, 2]"
    by (rule echo_batch_run)
  then have "?batch = (Inr [1, 2], snd ?batch)"
    by (metis prod.collapse)
  with acc obtain e prompts sp outs where
    pr: "render_prompts echo_env ''opt-125m'' [[user_message], [user_message, user_message]]
       Map.empty = Inr prompts"
    and gen: "generate echo_env e (PromptList prompts) sp = Inr outs"
    and each: "\<forall>i < length [1, 2::nat]. \<exists>c cs u.
         outputs (outs ! i) = c # cs
       \<and> mr_usage (responses (snd ?batch) ([1, 2] ! i)) = Some u
       \<and> prompt_tokens u = int (length (prompt_token_ids (outs ! i)))
       \<and> completion_tokens u = int (length (token_ids c))
       \<and> total_tokens u = prompt_tokens u + completion_tokens u"
    by blast
  from pr gen have outs: "outs = [echo_output ''m'', echo_output ''mm'']"
    by (auto simp: echo_render echo_generate)
  from each [THEN spec, of 1] have "\<exists>c cs u.
         outputs (outs ! 1) = c # cs
       \<and> mr_usage (responses (snd ?batch) ([1, 2] ! 1)) = Some u
       \<and> prompt_tokens u = int (length (prompt_token_ids (outs ! 1)))
       \<and> completion_tokens u = int (length (token_ids c))
       \<and> total_tokens u = prompt_tokens u + completion_tokens u"
    by simp
  then obtain c cs u where
    "outputs (outs ! 1) = c # cs"
    "mr_usage (responses (snd ?batch) 2) = Some u"
    "prompt_tokens u = int (length (prompt_token_ids (outs ! 1)))"
    "completion_tokens u = int (length (token_ids c))"
    "total_tokens u = prompt_tokens u + completion_tokens u"
    by auto
  then have u2: "mr_usage (responses (snd ?batch) 2)
                   = Some \<lparr>prompt_tokens = 2, completion_tokens = 2, total_tokens = 4\<rparr>"
    by (cases u) (auto simp: outs echo_output_def)
  from single u1 batch u2 show ?thesis by simp
qed




text \<open>
  Claim C8. A batch call leaves the list of logging events as it found it, whatever its
  outcome. A single completion that returns has called the pre-call hook, and, when it
  returns the response object, the post-call hook after it (the streaming path returns
  before the post-call hook).
\<close>

theorem batch_emits_no_log_events:
  shows "log_events (snd (batch_completions env model msgs optional_params cpd st)) = log_events st
       \<and> (\<forall>ret st'. completion env model messages r pv lg d cpd st = (Inr ret, st') \<longrightarrow>
            (\<exists>prompt sp.
               (\<forall>it. ret = RetStream it \<longrightarrow>
                  log_events st' = log_events st @ [PreCall prompt [] sp])
             \<and> (\<forall>r'. ret = RetResponse r' \<longrightarrow>
                  (\<exists>outs. log_events st'
                     = log_events st @ [PreCall prompt [] sp, PostCall prompt [] outs sp]))))"
proof (intro conjI allI impI)
  show "log_events (snd (batch_completions env model msgs optional_params cpd st)) = log_events st"
    by (rule batch_completions_log_events)
next
  fix ret st'
  assume "completion env model messages r pv lg d cpd st = (Inr ret, st')"
  then show "\<exists>prompt sp.
               (\<forall>it. ret = RetStream it \<longrightarrow>
                  log_events st' = log_events st @ [PreCall prompt [] sp])
             \<and> (\<forall>r'. ret = RetResponse r' \<longrightarrow>
                  (\<exists>outs. log_events st'
                     = log_events st @ [PreCall prompt [] sp, PostCall prompt [] outs sp]))"
  proof (cases rule: completion_returns_cases)
    case (stream e sp prompt outs st0)
    from validate_environment_frame [of env model "Some d" st] stream(1)
    have "log_events st0 = log_events st" by simp
    with stream show ?thesis by auto
  next
    case (response e sp prompt out rest candidate cs ch chs st0)
    from validate_environment_frame [of env model "Some d" st] response(1)
    have "log_events st0 = log_events st" by simp
    with response show ?thesis by auto
  qed
qed

theorem batch_emits_no_log_events_witness:
  "log_events (snd (batch_completions echo_env ''opt-125m''
      [[user_message], [user_message, user_message]] (Some 0) Map.empty start_state)) = []
   \<and> fst (batch_completions echo_env ''opt-125m''
      [[user_message], [user_message, user_message]] (Some 0) Map.empty start_state) = Inr [1, 2]
   \<and> fst (completion echo_env ''opt-125m'' [user_message] 0 quiet_print quiet_logging 0 Map.empty
         start_state) = Inr (RetResponse 0)
   \<and> length (log_events (snd (completion echo_env ''opt-125m'' [user_message] 0 quiet_print
         quiet_logging 0 Map.empty start_state))) = 2"
proof -
  let ?single = "completion echo_env ''opt-125m'' [user_message] 0 quiet_print quiet_logging 0
                   Map.empty start_state"
  note inst = batch_emits_no_log_events [of echo_env "''opt-125m''"
      "[[user_message], [user_message, user_message]]" "Some 0" Map.empty start_state
      "[user_message]" 0 quiet_print quiet_logging 0]
  have none: "log_events start_state = []" by (simp add: start_state_def)
  from inst none
  have b: "log_events (snd (batch_completions echo_env ''opt-125m''
      [[user_message], [user_message, user_message]] (Some 0) Map.empty start_state)) = []"
    by simp
  have single: "fst ?single = Inr (RetResponse 0)"
    by (simp add: echo_completion_run)
  then have "?single = (Inr (RetResponse 0), snd ?single)"
    by (metis prod.collapse)
  with inst obtain prompt sp outs where
    "log_events (snd ?single) = log_events start_state @ [PreCall prompt [] sp, PostCall prompt [] outs sp]"
    by blast
  with none have "length (log_events (snd ?single)) = 2" by simp
  with b single echo_batch_run show ?thesis by simp
qed

section \<open>The streaming path\<close>

lemma iter_list_from:
  "iter_list \<lparr>it_seq = xs, it_index = i\<rparr>
     = (drop i xs, \<lparr>it_seq = xs, it_index = max i (length xs)\<rparr>)"
proof (induction "length xs - i" arbitrary: i)
  case 0
  then have "length xs \<le> i" by simp
  then show ?case
    by (subst iter_list.simps) (simp add: iter_next_def max_def)
next
  case (Suc n)
  then have i: "i < length xs" and n: "n = length xs - Suc i" by simp_all
  from i have "drop i xs = xs ! i # drop (Suc i) xs"
    by (simp add: Cons_nth_drop_Suc)
  with i Suc.hyps(1) [OF n] show ?case
    by (subst iter_list.simps) (simp add: iter_next_def max_def)
qed

lemma iter_list_iter:
  "iter_list (iter xs) = (xs, \<lparr>it_seq = xs, it_index = length xs\<rparr>)"
  by (simp add: iter_def iter_list_from)

lemma iter_list_exhausted:
  "iter_list (snd (iter_list (iter xs))) = ([], snd (iter_list (iter xs)))"
  by (simp add: iter_list_iter iter_list_from)

lemma completion_stream_responses:
  assumes "dicts st d ''stream'' = Some (PBool True)"
  shows "responses (snd (completion env model messages r pv lg d cpd st)) = responses st"
proof -
  obtain res st0 where v: "validate_environment env model (Some d) st = (res, st0)"
    by (cases "validate_environment env model (Some d) st") auto
  from validate_environment_frame [of env model "Some d" st] v
  have frame: "responses st0 = responses st" by simp
  show ?thesis
  proof (cases res)
    case (Inl e)
    with v frame show ?thesis by (simp add: completion_def)
  next
    case (Inr hg)
    obtain h g where hg: "hg = (h, g)" by (cases hg)
    from v Inr hg have "fst (validate_environment env model (Some d) st) = Inr (h, g)" by simp
    from validate_environment_generation_dict [OF this] v
    have "dicts st0 g = generation_params (dicts st d)" by (simp add: caller_opts_def)
    with assms have "stream_requested (dicts st0 g)"
      by (simp add: stream_requested_generation_params)
    with v Inr hg frame show ?thesis
      by (simp add: completion_def Let_def engine_generate_def
          split: sum.splits option.splits prod.splits)
  qed
qed

text \<open>
  Claim C6. When the caller's options hold \<open>stream\<close> with the value \<open>True\<close>, no response
  object is written on any path of completion. If the collaborators succeed, completion
  returns; and whenever it returns, the value is the iterator over the very list the
  engine returned for the rendered prompt. Reading the iterator to its end gives that
  list, and reading it again gives nothing.
\<close>

theorem streaming_returns_raw_iterator:
  assumes "dicts st d ''stream'' = Some (PBool True)"
  shows "responses (snd (completion env model messages r pv lg d cpd st)) = responses st
       \<and> (\<forall>ret st'. completion env model messages r pv lg d cpd st = (Inr ret, st') \<longrightarrow>
            (\<exists>e prompt sp outs.
                render_prompt env model messages cpd = Inr prompt
              \<and> generate env e (SinglePrompt prompt) sp = Inr outs
              \<and> ret = RetStream (iter outs)
              \<and> fst (iter_list (iter outs)) = outs
              \<and> fst (iter_list (snd (iter_list (iter outs)))) = []))
       \<and> (\<forall>e g st0 sp prompt outs.
              validate_environment env model (Some d) st = (Inr (Some e, g), st0)
            \<and> SamplingParams env (generation_params (dicts st d)) = Inr sp
            \<and> render_prompt env model messages cpd = Inr prompt
            \<and> pre_call lg prompt [] sp = None
            \<and> generate env e (SinglePrompt prompt) sp = Inr outs \<longrightarrow>
            fst (completion env model messages r pv lg d cpd st) = Inr (RetStream (iter outs)))"
proof (intro conjI allI impI)
  show "responses (snd (completion env model messages r pv lg d cpd st)) = responses st"
    using assms by (rule completion_stream_responses)
next
  fix ret st'
  assume "completion env model messages r pv lg d cpd st = (Inr ret, st')"
  then show "\<exists>e prompt sp outs.
                render_prompt env model messages cpd = Inr prompt
              \<and> generate env e (SinglePrompt prompt) sp = Inr outs
              \<and> ret = RetStream (iter outs)
              \<and> fst (iter_list (iter outs)) = outs
              \<and> fst (iter_list (snd (iter_list (iter outs)))) = []"
  proof (cases rule: completion_returns_cases)
    case (stream e sp prompt outs st0)
    then show ?thesis
      by (auto simp: iter_list_iter iter_list_from)
  next
    case (response e sp prompt out rest candidate cs ch chs st0)
    with assms show ?thesis by simp
  qed
next
  fix e g st0 sp prompt outs
  assume "validate_environment env model (Some d) st = (Inr (Some e, g), st0)
            \<and> SamplingParams env (generation_params (dicts st d)) = Inr sp
            \<and> render_prompt env model messages cpd = Inr prompt
            \<and> pre_call lg prompt [] sp = None
            \<and> generate env e (SinglePrompt prompt) sp = Inr outs"
  with assms show "fst (completion env model messages r pv lg d cpd st) = Inr (RetStream (iter outs))"
    by (simp add: completion_runs_stream [where pv = pv and r = r])
qed

lemma echo_stream_run:
  "fst (completion echo_env ''opt-125m'' [user_message] 0 quiet_print quiet_logging 1 Map.empty
        start_state) = Inr (RetStream (iter [echo_output ''m'']))"
proof -
  have sp: "SamplingParams echo_env (generation_params (dicts start_state 1)) = Inr (SamplingConfig 0)"
    by (simp add: echo_env_def)
  have pre: "pre_call quiet_logging ''m'' [] (SamplingConfig 0) = None"
    by (simp add: quiet_logging_def)
  have s: "dicts start_state 1 ''stream'' = Some (PBool True)"
    by (simp add: start_state_def)
  show ?thesis
    using completion_runs_stream [where pv = quiet_print and r = 0 and d = 1,
          OF echo_validate_run sp echo_render(1) pre echo_generate(1) s]
    by simp
qed

theorem streaming_returns_raw_iterator_witness:
  "fst (completion echo_env ''opt-125m'' [user_message] 0 quiet_print quiet_logging 1 Map.empty
        start_state) = Inr (RetStream (iter [echo_output ''m'']))
   \<and> responses (snd (completion echo_env ''opt-125m'' [user_message] 0 quiet_print quiet_logging
        1 Map.empty start_state)) 0 = empty_response
   \<and> fst (iter_list (iter [echo_output ''m''])) = [echo_output ''m'']
   \<and> fst (iter_list (snd (iter_list (iter [echo_output ''m''])))) = []"
proof -
  let ?call = "completion echo_env ''opt-125m'' [user_message] 0 quiet_print quiet_logging 1
                 Map.empty start_state"
  have s: "dicts start_state 1 ''stream'' = Some (PBool True)"
    by (simp add: start_state_def)
  note inst = streaming_returns_raw_iterator [OF s, of echo_env "''opt-125m''" "[user_message]"
      0 quiet_print quiet_logging Map.empty]
  from inst have untouched: "responses (snd ?call) 0 = empty_response"
    by (simp add: start_state_def)
  have "?call = (Inr (RetStream (iter [echo_output ''m''])), snd ?call)"
    using echo_stream_run by (metis prod.collapse)
  with inst obtain e prompt sp outs where
    "render_prompt echo_env ''opt-125m'' [user_message] Map.empty = Inr prompt"
    "generate echo_env e (SinglePrompt prompt) sp = Inr outs"
    "RetStream (iter [echo_output ''m'']) = RetStream (iter outs)"
    "fst (iter_list (iter outs)) = outs"
    "fst (iter_list (snd (iter_list (iter outs)))) = []"
    by blast
  then have "fst (iter_list (iter [echo_output ''m''])) = [echo_output ''m'']"
    and "fst (iter_list (snd (iter_list (iter [echo_output ''m''])))) = []"
    by (auto simp: echo_render echo_generate)
  with echo_stream_run untouched show ?thesis by simp
qed

section \<open>The branch on \<open>stream\<close> and the check of the engine handle\<close>

lemma echo_int_stream_run:
  "fst (completion echo_env ''opt-125m'' [user_message] 0 quiet_print quiet_logging 2 Map.empty
        start_state) = Inr (RetResponse 0)"
proof -
  have sp: "SamplingParams echo_env (generation_params (dicts start_state 2)) = Inr (SamplingConfig 0)"
    by (simp add: echo_env_def)
  have pre: "pre_call quiet_logging ''m'' [] (SamplingConfig 0) = None"
    by (simp add: quiet_logging_def)
  have gen: "generate echo_env (Engine 1) (SinglePrompt ''m'') (SamplingConfig 0)
               = Inr (echo_output ''m'' # [])"
    by (simp add: echo_env_def)
  have ns: "dicts start_state 2 ''stream'' \<noteq> Some (PBool True)"
    by (simp add: start_state_def)
  have post: "post_call quiet_logging ''m'' [] (echo_output ''m'' # []) (SamplingConfig 0) = None"
    by (simp add: quiet_logging_def)
  have pv: "quiet_print (echo_output ''m'' # []) = None"
    by (simp add: quiet_print_def)
  have c: "outputs (echo_output ''m'') = \<lparr>text_of = ''m'', token_ids = [7, 8]\<rparr> # []"
    by (simp add: echo_output_def)
  have ch: "choices (responses start_state 0) = \<lparr>message = \<lparr>content = None\<rparr>\<rparr> # []"
    by (simp add: start_state_def empty_response_def)
  show ?thesis
    using completion_runs_response [where pv = quiet_print and r = 0 and d = 2,
        OF echo_validate_run sp echo_render(1) pre gen ns post pv c ch]
    by simp
qed

text \<open>
  Claim C9. A completion that returns has returned the iterator exactly when the
  caller's options hold \<open>stream\<close> with the value \<open>True\<close> itself. With any other value, or
  without the key, it has returned the caller's response object, whose first choice
  holds the text of the first candidate and whose \<open>created\<close>, \<open>model\<close> and \<open>usage\<close> are
  set; and it does return it when the collaborators succeed and the engine gave an
  output with a candidate.
\<close>

theorem stream_only_on_true:
  shows "(\<forall>ret st'. completion env model messages r pv lg d cpd st = (Inr ret, st') \<longrightarrow>
            ((\<exists>it. ret = RetStream it) \<longleftrightarrow> dicts st d ''stream'' = Some (PBool True))
          \<and> (dicts st d ''stream'' \<noteq> Some (PBool True) \<longrightarrow>
               ret = RetResponse r
             \<and> (\<exists>e prompt sp out rest c cs ch chs.
                   render_prompt env model messages cpd = Inr prompt
                 \<and> generate env e (SinglePrompt prompt) sp = Inr (out # rest)
                 \<and> outputs out = c # cs
                 \<and> choices (responses st' r) = ch # chs
                 \<and> content (message ch) = Some (text_of c)
                 \<and> created (responses st' r) = time_time env (clock st)
                 \<and> mr_model (responses st' r) = Some model
                 \<and> mr_usage (responses st' r)
                     = Some \<lparr>prompt_tokens = int (length (prompt_token_ids out)),
                             completion_tokens = int (length (token_ids c)),
                             total_tokens = int (length (prompt_token_ids out))
                                             + int (length (token_ids c))\<rparr>)))
       \<and> (\<forall>e g st0 sp prompt out rest c cs ch chs.
              dicts st d ''stream'' \<noteq> Some (PBool True)
            \<and> validate_environment env model (Some d) st = (Inr (Some e, g), st0)
            \<and> SamplingParams env (generation_params (dicts st d)) = Inr sp
            \<and> render_prompt env model messages cpd = Inr prompt
            \<and> pre_call lg prompt [] sp = None
            \<and> generate env e (SinglePrompt prompt) sp = Inr (out # rest)
            \<and> post_call lg prompt [] (out # rest) sp = None
            \<and> pv (out # rest) = None
            \<and> outputs out = c # cs
            \<and> choices (responses st r) = ch # chs \<longrightarrow>
            fst (completion env model messages r pv lg d cpd st) = Inr (RetResponse r))
       \<and> \<not> stream_requested [''stream'' \<mapsto> PInt 1]
       \<and> \<not> stream_requested [''stream'' \<mapsto> PStr ''true'']
       \<and> \<not> stream_requested Map.empty
       \<and> stream_requested [''stream'' \<mapsto> PBool True]"
proof (intro conjI allI impI)
  fix ret st'
  assume run: "completion env model messages r pv lg d cpd st = (Inr ret, st')"
  then show "(\<exists>it. ret = RetStream it) \<longleftrightarrow> dicts st d ''stream'' = Some (PBool True)"
    by (cases rule: completion_returns_cases) auto
  assume ns: "dicts st d ''stream'' \<noteq> Some (PBool True)"
  from run show "ret = RetResponse r"
  proof (cases rule: completion_returns_cases)
    case (stream e sp prompt outs st0)
    with ns show ?thesis by simp
  next
    case (response e sp prompt out rest candidate cs ch chs st0)
    then show ?thesis by simp
  qed
  from run show "\<exists>e prompt sp out rest c cs ch chs.
                   render_prompt env model messages cpd = Inr prompt
                 \<and> generate env e (SinglePrompt prompt) sp = Inr (out # rest)
                 \<and> outputs out = c # cs
                 \<and> choices (responses st' r) = ch # chs
                 \<and> content (message ch) = Some (text_of c)
                 \<and> created (responses st' r) = time_time env (clock st)
                 \<and> mr_model (responses st' r) = Some model
                 \<and> mr_usage (responses st' r)
                     = Some \<lparr>prompt_tokens = int (length (prompt_token_ids out)),
                             completion_tokens = int (length (token_ids c)),
                             total_tokens = int (length (prompt_token_ids out))
                                             + int (length (token_ids c))\<rparr>"
  proof (cases rule: completion_returns_cases)
    case (stream e sp prompt outs st0)
    with ns show ?thesis by simp
  next
    case (response e sp prompt out rest candidate cs ch chs st0)
    from validate_environment_frame [of env model "Some d" st] response(1)
    have clock: "clock st0 = clock st" by simp
    let ?ch = "ch\<lparr>message := (message ch)\<lparr>content := Some (text_of candidate)\<rparr>\<rparr>"
    from response clock have
      "choices (responses st' r) = ?ch # chs"
      "content (message ?ch) = Some (text_of candidate)"
      "created (responses st' r) = time_time env (clock st)"
      "mr_model (responses st' r) = Some model"
      "mr_usage (responses st' r)
         = Some \<lparr>prompt_tokens = int (length (prompt_token_ids out)),
                 completion_tokens = int (length (token_ids candidate)),
                 total_tokens = int (length (prompt_token_ids out))
                                 + int (length (token_ids candidate))\<rparr>"
      by simp_all
    with response(4,6,10) show ?thesis by blast
  qed
next
  fix e g st0 sp prompt out rest c cs ch chs
  assume "dicts st d ''stream'' \<noteq> Some (PBool True)
            \<and> validate_environment env model (Some d) st = (Inr (Some e, g), st0)
            \<and> SamplingParams env (generation_params (dicts st d)) = Inr sp
            \<and> render_prompt env model messages cpd = Inr prompt
            \<and> pre_call lg prompt [] sp = None
            \<and> generate env e (SinglePrompt prompt) sp = Inr (out # rest)
            \<and> post_call lg prompt [] (out # rest) sp = None
            \<and> pv (out # rest) = None
            \<and> outputs out = c # cs
            \<and> choices (responses st r) = ch # chs"
  then show "fst (completion env model messages r pv lg d cpd st) = Inr (RetResponse r)"
    by (simp add: completion_runs_response [where pv = pv and r = r and out = out and rest = rest])
qed (simp_all add: stream_requested_def dict_contains_def)

theorem stream_only_on_true_witness:
  "fst (completion echo_env ''opt-125m'' [user_message] 0 quiet_print quiet_logging 2 Map.empty
        start_state) = Inr (RetResponse 0)
   \<and> dicts start_state 2 ''stream'' = Some (PInt 1)
   \<and> mr_model (responses (snd (completion echo_env ''opt-125m'' [user_message] 0 quiet_print
        quiet_logging 2 Map.empty start_state)) 0) = Some ''opt-125m''
   \<and> created (responses (snd (completion echo_env ''opt-125m'' [user_message] 0 quiet_print
        quiet_logging 2 Map.empty start_state)) 0) = 1700000000
   \<and> fst (completion echo_env ''opt-125m'' [user_message] 0 quiet_print quiet_logging 1 Map.empty
        start_state) = Inr (RetStream (iter [echo_output ''m'']))
   \<and> dicts start_state 1 ''stream'' = Some (PBool True)"
proof -
  let ?call = "completion echo_env ''opt-125m'' [user_message] 0 quiet_print quiet_logging 2
                 Map.empty start_state"
  note inst = stream_only_on_true [of echo_env "''opt-125m''" "[user_message]" 0 quiet_print
      quiet_logging 2 Map.empty start_state]
  have d2: "dicts start_state 2 ''stream'' = Some (PInt 1)"
    and d1: "dicts start_state 1 ''stream'' = Some (PBool True)"
    by (simp_all add: start_state_def)
  have ns: "dicts start_state 2 ''stream'' \<noteq> Some (PBool True)"
    using d2 by simp
  have run: "?call = (Inr (RetResponse 0), snd ?call)"
    using echo_int_stream_run by (metis prod.collapse)
  from inst run ns
  have "mr_model (responses (snd ?call) 0) = Some ''opt-125m''"
    and "created (responses (snd ?call) 0) = time_time echo_env (clock start_state)"
    by blast+
  then have "mr_model (responses (snd ?call) 0) = Some ''opt-125m''"
    and "created (responses (snd ?call) 0) = 1700000000"
    by (simp_all add: echo_env_def start_state_def)
  with echo_int_stream_run echo_stream_run d1 d2 show ?thesis by simp
qed

lemma completion_engine_calls:
  assumes "validate_environment env model (Some d) st = (Inr (Some e, g), st0)"
    and "SamplingParams env (generation_params (dicts st d)) = Inr sp"
    and "render_prompt env model messages cpd = Inr prompt"
    and "pre_call lg prompt [] sp = None"
  shows "engine_calls (snd (completion env model messages r pv lg d cpd st))
           = engine_calls st0 @ [Generate e (SinglePrompt prompt) sp]"
proof -
  from assms(1) have f: "fst (validate_environment env model (Some d) st) = Inr (Some e, g)"
    and s: "snd (validate_environment env model (Some d) st) = st0" by simp_all
  from validate_environment_generation_dict [OF f] s
  have gen: "dicts st0 g = generation_params (dicts st d)" by (simp add: caller_opts_def)
  show ?thesis
    using assms(2-4)
    by (simp add: completion_def assms(1) gen engine_generate_def populate_response_def Let_def
        split: sum.splits option.splits list.splits)
qed

text \<open>
  Claim C7. The check before \<open>generate\<close> raises the adapter's error with status 0 when
  the handle is \<open>None\<close>. A validate_environment that returns has returned an engine, the
  one the global holds, never \<open>None\<close>. So a completion that gets as far as the check
  (the sampling configuration built, the prompt rendered, the pre-call hook passed)
  calls \<open>generate\<close> on that engine: the call is recorded after those of
  validate_environment, whatever happens afterwards.
\<close>

theorem engine_available_after_validation:
  shows "engine_generate env None p sp st
           = (Inl (VLLMError 0 ''Need to pass in a model name to initialize vllm''), st)
       \<and> (\<forall>h g. fst (validate_environment env model optional_params st) = Inr (h, g) \<longrightarrow>
            (\<exists>e. h = Some e
                \<and> llm (snd (validate_environment env model optional_params st)) = Some e))
       \<and> (\<forall>h g sp' prompt.
              fst (validate_environment env model (Some d) st) = Inr (h, g)
            \<and> SamplingParams env (generation_params (dicts st d)) = Inr sp'
            \<and> render_prompt env model messages cpd = Inr prompt
            \<and> pre_call lg prompt [] sp' = None \<longrightarrow>
            (\<exists>e. h = Some e
                \<and> engine_calls (snd (completion env model messages r pv lg d cpd st))
                    = engine_calls (snd (validate_environment env model (Some d) st))
                      @ [Generate e (SinglePrompt prompt) sp']))"
proof (intro conjI allI impI)
  show "engine_generate env None p sp st
           = (Inl (VLLMError 0 ''Need to pass in a model name to initialize vllm''), st)"
    by (simp add: engine_generate_def)
next
  fix h g
  assume "fst (validate_environment env model optional_params st) = Inr (h, g)"
  from validate_environment_returns [OF this]
  show "\<exists>e. h = Some e \<and> llm (snd (validate_environment env model optional_params st)) = Some e"
    by blast
next
  fix h g sp' prompt
  assume a: "fst (validate_environment env model (Some d) st) = Inr (h, g)
            \<and> SamplingParams env (generation_params (dicts st d)) = Inr sp'
            \<and> render_prompt env model messages cpd = Inr prompt
            \<and> pre_call lg prompt [] sp' = None"
  then have f: "fst (validate_environment env model (Some d) st) = Inr (h, g)" by simp
  from validate_environment_returns [OF f] obtain e where h: "h = Some e" by blast
  with f have v: "validate_environment env model (Some d) st
                    = (Inr (Some e, g), snd (validate_environment env model (Some d) st))"
    by (metis prod.collapse)
  from a have rest: "SamplingParams env (generation_params (dicts st d)) = Inr sp'"
    "render_prompt env model messages cpd = Inr prompt" "pre_call lg prompt [] sp' = None"
    by simp_all
  from completion_engine_calls [OF v rest, of r pv] h
  show "\<exists>e. h = Some e
          \<and> engine_calls (snd (completion env model messages r pv lg d cpd st))
              = engine_calls (snd (validate_environment env model (Some d) st))
                @ [Generate e (SinglePrompt prompt) sp']"
    by simp
qed

theorem engine_available_after_validation_witness:
  "fst (validate_environment echo_env ''opt-125m'' (Some 0) start_state)
     = Inr (Some (Engine 1), 3)
   \<and> llm (snd (validate_environment echo_env ''opt-125m'' (Some 0) start_state))
     = Some (Engine 1)
   \<and> engine_calls (snd (completion echo_env ''opt-125m'' [user_message] 0 quiet_print
        quiet_logging 0 Map.empty start_state))
     = [EngineInit ''opt-125m'' (construction_params (dicts start_state 0)),
        Generate (Engine 1) (SinglePrompt ''m'') (SamplingConfig 0)]"
proof -
  note inst = engine_available_after_validation [of echo_env _ _ start_state "''opt-125m''"
      "Some 0" 0 "[user_message]" Map.empty quiet_logging 0 quiet_print]
  have f: "fst (validate_environment echo_env ''opt-125m'' (Some 0) start_state)
             = Inr (Some (Engine 1), 3)"
    by (simp add: echo_validate_run)
  with inst have engine: "llm (snd (validate_environment echo_env ''opt-125m'' (Some 0) start_state))
     = Some (Engine 1)"
    by auto
  have sp: "SamplingParams echo_env (generation_params (dicts start_state 0)) = Inr (SamplingConfig 0)"
    by (simp add: echo_env_def)
  have pre: "pre_call quiet_logging ''m'' [] (SamplingConfig 0) = None"
    by (simp add: quiet_logging_def)
  from inst f sp echo_render(1) pre
  have "\<exists>e. Some (Engine 1) = Some e
          \<and> engine_calls (snd (completion echo_env ''opt-125m'' [user_message] 0 quiet_print
               quiet_logging 0 Map.empty start_state))
              = engine_calls (snd (validate_environment echo_env ''opt-125m'' (Some 0) start_state))
                @ [Generate e (SinglePrompt ''m'') (SamplingConfig 0)]"
    by blast
  then have "engine_calls (snd (completion echo_env ''opt-125m'' [user_message] 0 quiet_print
        quiet_logging 0 Map.empty start_state))
     = [EngineInit ''opt-125m'' (construction_params (dicts start_state 0)),
        Generate (Engine 1) (SinglePrompt ''m'') (SamplingConfig 0)]"
    by (auto simp: echo_validate_run)
  with f engine show ?thesis by simp
qed

end
